theory Spec2Isabelle
  imports Main "HOL-Library.Sublist"
begin

section \<open>Go strings and the library functions the parsers call\<close>

text \<open>
  A Go string is a sequence of bytes; \<^typ>\<open>string\<close> (a list of 8-bit characters) is
  the same thing.  Lengths, indices and slices count bytes, as Go does.
\<close>

definition newline :: char where
  "newline = CHR 0x0A"

text \<open>\<^verbatim>\<open>strings.Split(s, "\n")\<close>: the pieces between the separators; never empty.\<close>

fun Split :: "string \<Rightarrow> char \<Rightarrow> string list" where
  "Split [] sep = [[]]"
| "Split (c # cs) sep =
     (if c = sep then [] # Split cs sep
      else (case Split cs sep of
              [] \<Rightarrow> [[c]]
            | l # ls \<Rightarrow> (c # l) # ls))"

text \<open>\<^verbatim>\<open>strings.HasPrefix\<close>, \<^verbatim>\<open>strings.Index\<close> (the first position, or -1) and
  \<^verbatim>\<open>strings.Contains\<close>.\<close>

definition HasPrefix :: "string \<Rightarrow> string \<Rightarrow> bool" where
  "HasPrefix s p = prefix p s"

fun Index :: "string \<Rightarrow> string \<Rightarrow> int" where
  "Index [] sub = (if sub = [] then 0 else -1)"
| "Index (c # cs) sub =
     (if prefix sub (c # cs) then 0
      else (let i = Index cs sub in if i < 0 then -1 else i + 1))"

definition Contains :: "string \<Rightarrow> string \<Rightarrow> bool" where
  "Contains s sub = (Index s sub \<ge> 0)"

text \<open>
  A slice expression \<^verbatim>\<open>s[lo:hi]\<close> panics at run time unless
  \<open>0 \<le> lo \<le> hi \<le> len(s)\<close>; the panic is the value \<open>None\<close>.
\<close>

definition slice :: "string \<Rightarrow> int \<Rightarrow> int \<Rightarrow> string option" where
  "slice s lo hi =
     (if 0 \<le> lo \<and> lo \<le> hi \<and> hi \<le> int (length s)
      then Some (take (nat (hi - lo)) (drop (nat lo) s))
      else None)"

text \<open>
  Errors are values.  \<open>New msg\<close> is \<^verbatim>\<open>errors.New\<close> or a \<^verbatim>\<open>fmt.Errorf\<close> without
  \<^verbatim>\<open>%w\<close>; \<open>Wrap msg e\<close> is \<^verbatim>\<open>fmt.Errorf(msg + ": %w", e)\<close>.
\<close>

datatype error = New string | Wrap string error

text \<open>What a call of a Go function does: it returns, or the goroutine panics.\<close>

datatype 'a outcome = Returns 'a | Panics


section \<open>racadm: parsing the job id\<close>

text \<open>
  \<^verbatim>\<open>parseJobId\<close> looks at the lines in order.  The inner \<^verbatim>\<open>if idx != -1\<close> always
  holds after \<^verbatim>\<open>Contains\<close>, but it is kept: when it fails the loop goes on.
\<close>

fun parseJobId_lines :: "string list \<Rightarrow> (error + string) outcome" where
  "parseJobId_lines [] = Returns (Inl (New ''failed to find JobID in output''))"
| "parseJobId_lines (line # rest) =
     (if Contains line ''JID_'' then
        (let idx = Index line ''JID_'' in
         if idx \<noteq> -1 then
           (case slice line idx (idx + 16) of
              None \<Rightarrow> Panics
            | Some jobId \<Rightarrow> Returns (Inr jobId))
         else parseJobId_lines rest)
      else parseJobId_lines rest)"

definition parseJobId :: "string \<Rightarrow> (error + string) outcome" where
  "parseJobId message = parseJobId_lines (Split message newline)"


section \<open>racadm: parsing the percentage\<close>

text \<open>
  The regular expression \<^verbatim>\<open>Percent Complete=\[(\d+)\]\<close>.  In Go's syntax \<^verbatim>\<open>\d\<close> is
  an ASCII digit.  A match at a position is the literal, a maximal non-empty run of
  digits and a closing bracket (a shorter run of digits is followed by a digit, never
  by the bracket).  \<^verbatim>\<open>FindStringSubmatch\<close> returns the leftmost match, as the list
  of the whole match and the group, or nil (the empty list).
\<close>

definition isDigit :: "char \<Rightarrow> bool" where
  "isDigit c = (48 \<le> (of_char c :: nat) \<and> (of_char c :: nat) \<le> 57)"

definition matchHere :: "string \<Rightarrow> string list" where
  "matchHere s =
     (if prefix ''Percent Complete=['' s then
        (let rest = drop 18 s;
             ds = takeWhile isDigit rest;
             after = dropWhile isDigit rest
         in if ds \<noteq> [] \<and> prefix '']'' after
            then [''Percent Complete=['' @ ds @ '']'', ds]
            else [])
      else [])"

fun FindStringSubmatch :: "string \<Rightarrow> string list" where
  "FindStringSubmatch [] = []"
| "FindStringSubmatch (c # cs) =
     (if matchHere (c # cs) \<noteq> [] then matchHere (c # cs)
      else FindStringSubmatch cs)"

text \<open>
  \<^verbatim>\<open>strconv.Atoi\<close> on a string of decimal digits: the value, or a range error when
  it does not fit the 64-bit \<^verbatim>\<open>int\<close>.  Any other character is a syntax error.
\<close>

definition maxInt :: int where
  "maxInt = 2 ^ 63 - 1"

definition digitVal :: "char \<Rightarrow> int" where
  "digitVal c = of_char c - 48"

definition decimal :: "string \<Rightarrow> int" where
  "decimal ds = foldl (\<lambda>n c. 10 * n + digitVal c) 0 ds"

definition Atoi :: "string \<Rightarrow> error + int" where
  "Atoi s =
     (if s = [] \<or> \<not> list_all isDigit s
      then Inl (New (''strconv.Atoi: parsing '' @ s @ '': invalid syntax''))
      else if decimal s > maxInt
      then Inl (New (''strconv.Atoi: parsing '' @ s @ '': value out of range''))
      else Inr (decimal s))"

fun parsePercentComplete_lines :: "string list \<Rightarrow> error + int" where
  "parsePercentComplete_lines [] =
     Inl (New ''failed to find Percent Complete in output'')"
| "parsePercentComplete_lines (line # rest) =
     (if HasPrefix line ''Percent Complete=['' then
        (let matches = FindStringSubmatch line in
         if length matches \<noteq> 2 then
           Inl (New (''failed to extract Percent Complete using regex: '' @ line))
         else
           (case Atoi (matches ! 1) of
              Inl err \<Rightarrow> Inl (Wrap ''failed to parse percent complete'' err)
            | Inr percentComplete \<Rightarrow> Inr percentComplete))
      else parsePercentComplete_lines rest)"

definition parsePercentComplete :: "string \<Rightarrow> error + int" where
  "parsePercentComplete message = parsePercentComplete_lines (Split message newline)"


section \<open>racadm: running commands\<close>

text \<open>
  The fields of \<^verbatim>\<open>Racadm\<close> that \<^verbatim>\<open>run\<close> reads.  The executor is outside the
  package: what \<^verbatim>\<open>ExecWithContext\<close> returns (a result or nil, and an error or nil)
  is an input of the model, and every command line handed to it is appended to a
  trace.
\<close>

record Racadm =
  Host :: string
  Username :: string
  Password :: string

record exec_result =
  Stdout :: string
  Stderr :: string

type_synonym exec_reply = "exec_result option \<times> error option"

type_synonym trace = "string list list"

definition run_output :: "exec_reply \<Rightarrow> string \<times> error option" where
  "run_output reply =
     (case reply of
        (None, err) \<Rightarrow> ([], err)
      | (Some result, Some err) \<Rightarrow> (Stderr result, Some err)
      | (Some result, None) \<Rightarrow> (Stdout result, None))"

definition run ::
  "Racadm \<Rightarrow> trace \<Rightarrow> exec_reply \<Rightarrow> string \<Rightarrow> string list \<Rightarrow> (string \<times> error option) \<times> trace"
where
  "run s tr reply command additionalArgs =
     (let racadmArgs =
            [''-r'', Host s, ''-u'', Username s, ''-p'', Password s, ''--nocertwarn'', command]
            @ additionalArgs
      in (run_output reply, tr @ [racadmArgs]))"

definition GetJobQueue ::
  "Racadm \<Rightarrow> trace \<Rightarrow> exec_reply \<Rightarrow> string \<Rightarrow> (string \<times> error option) \<times> trace"
where
  "GetJobQueue s tr reply jobID =
     (case run s tr reply ''jobqueue'' [''view'', ''-i'', jobID] of
        ((output, Some err), tr') \<Rightarrow> (([], Some err), tr')
      | ((output, None), tr') \<Rightarrow> ((output, None), tr'))"


section \<open>racadm: ChangeBiosCfg\<close>

text \<open>Durations and instants are integers, in nanoseconds (instants since Go's zero
  \<^verbatim>\<open>Time\<close>).  A \<^verbatim>\<open>Duration\<close> is a 64-bit integer and \<^verbatim>\<open>Time.Sub\<close> saturates.\<close>

definition second :: int where
  "second = 1000000000"

definition minute :: int where
  "minute = 60 * second"

definition tickerInterval :: int where
  "tickerInterval = 30 * second"

definition timeout :: int where
  "timeout = (14 * minute) + (30 * second)"

definition maxErrors :: nat where
  "maxErrors = 3"

definition minDuration :: int where
  "minDuration = - (2 ^ 63)"

definition maxDuration :: int where
  "maxDuration = 2 ^ 63 - 1"

definition Sub :: "int \<Rightarrow> int \<Rightarrow> int" where
  "Sub t u =
     (if t - u < minDuration then minDuration
      else if t - u > maxDuration then maxDuration
      else t - u)"

definition Until :: "int \<Rightarrow> int \<Rightarrow> int" where
  "Until t now = Sub t now"

text \<open>A context has a deadline or none; \<^verbatim>\<open>ctx.Deadline()\<close> returns the zero
  \<^verbatim>\<open>Time\<close> and false when there is none.\<close>

record Context =
  deadline :: "int option"

definition Deadline :: "Context \<Rightarrow> int \<times> bool" where
  "Deadline ctx = (case deadline ctx of None \<Rightarrow> (0, False) | Some d \<Rightarrow> (d, True))"

text \<open>
  What happens around one call: the two readings of the clock (one for the check, one
  for the message), the text \<^verbatim>\<open>Duration.String\<close> gives for a duration, the
  executor's reply to the \<^verbatim>\<open>set\<close> command, and the sequence of cases the
  \<^verbatim>\<open>select\<close> of the wait loop takes, one per iteration.  A tick carries the
  executor's reply to that iteration's \<^verbatim>\<open>jobqueue view\<close>.
\<close>

datatype event = CtxDone error | TimeoutFired | TickFired exec_reply

record world =
  now1 :: int
  now2 :: int
  durationString :: "int \<Rightarrow> string"
  setReply :: exec_reply
  events :: "event list"

text \<open>
  How a call stands when the events are used up: it has returned (nil or an error),
  it has panicked, or it is blocked in the \<^verbatim>\<open>select\<close> with this \<^verbatim>\<open>errorCount\<close>.
\<close>

datatype status = Return "error option" | Panic | Waiting nat

fun pollLoop :: "Racadm \<Rightarrow> string \<Rightarrow> nat \<Rightarrow> event list \<Rightarrow> trace \<Rightarrow> status \<times> trace" where
  "pollLoop s jobID errorCount [] tr = (Waiting errorCount, tr)"
| "pollLoop s jobID errorCount (CtxDone ctxErr # evs) tr =
     (Return (Some (Wrap ''context canceled while waiting for job completion'' ctxErr)), tr)"
| "pollLoop s jobID errorCount (TimeoutFired # evs) tr =
     (Return (Some (New ''timeout exceeded while waiting for job to complete'')), tr)"
| "pollLoop s jobID errorCount (TickFired reply # evs) tr =
     (case GetJobQueue s tr reply jobID of
        ((output, Some err), tr') \<Rightarrow>
          (if errorCount + 1 \<ge> maxErrors
           then (Return (Some (Wrap
                   ''exceeded maximum consecutive errors while waiting for job completion'' err)), tr')
           else pollLoop s jobID (errorCount + 1) evs tr')
      | ((output, None), tr') \<Rightarrow>
          (case parsePercentComplete output of
             Inl err \<Rightarrow>
               (if errorCount + 1 \<ge> maxErrors
                then (Return (Some (Wrap
                        ''exceeded maximum consecutive errors while parsing percent complete'' err)), tr')
                else pollLoop s jobID (errorCount + 1) evs tr')
           | Inr percentComplete \<Rightarrow>
               (if percentComplete = 100 then (Return None, tr')
                else pollLoop s jobID 0 evs tr')))"

definition ChangeBiosCfg :: "Racadm \<Rightarrow> Context \<Rightarrow> world \<Rightarrow> string \<Rightarrow> status \<times> trace" where
  "ChangeBiosCfg s ctx w cfgFile =
     (let args = [''-t'', ''xml'', ''-f'', cfgFile];
          d = fst (Deadline ctx)
      in if Until d (now1 w) < timeout then
           (Return (Some (New (''remaining context deadline (minimum: ''
              @ durationString w timeout
              @ '') insufficient to perform update, remaining: ''
              @ durationString w (Until d (now2 w))))), [])
         else
           (case run s [] (setReply w) ''set'' args of
              ((output, Some err), tr) \<Rightarrow>
                (Return (Some (Wrap ''failed to execute racadm set command'' err)), tr)
            | ((output, None), tr) \<Rightarrow>
                (case parseJobId output of
                   Panics \<Rightarrow> (Panic, tr)
                 | Returns (Inl err) \<Rightarrow> (Return (Some (Wrap ''failed to parse JobID'' err)), tr)
                 | Returns (Inr jobID) \<Rightarrow> pollLoop s jobID 0 (events w) tr)))"



section \<open>racadm: the vocabulary of the properties\<close>

text \<open>
  An iteration of the wait loop fails when \<^verbatim>\<open>GetJobQueue\<close> returns an error or
  \<^verbatim>\<open>parsePercentComplete\<close> does; otherwise it reads a percentage.  The command line
  of an iteration, and the two errors the loop returns at \<^verbatim>\<open>maxErrors\<close>.
\<close>

definition tickFails :: "exec_reply \<Rightarrow> bool" where
  "tickFails reply =
     (case run_output reply of
        (output, Some err) \<Rightarrow> True
      | (output, None) \<Rightarrow> isl (parsePercentComplete output))"

definition tickPercent :: "exec_reply \<Rightarrow> int" where
  "tickPercent reply = projr (parsePercentComplete (fst (run_output reply)))"

definition jobqueueArgs :: "Racadm \<Rightarrow> string \<Rightarrow> string list" where
  "jobqueueArgs s jobID = 
     [''-r'', Host s, ''-u'', Username s, ''-p'', Password s, ''--nocertwarn'', ''jobqueue'', ''view'', ''-i'', jobID]"

definition exceeded :: "status \<Rightarrow> bool" where
  "exceeded st =
     (case st of
        Return (Some (Wrap msg err)) \<Rightarrow> prefix ''exceeded maximum consecutive errors'' msg
      | _ \<Rightarrow> False)"

text \<open>The command line of the submission.\<close>

definition setArgs :: "Racadm \<Rightarrow> string \<Rightarrow> string list" where
  "setArgs s cfgFile =
     [''-r'', Host s, ''-u'', Username s, ''-p'', Password s, ''--nocertwarn'', ''set'',
      ''-t'', ''xml'', ''-f'', cfgFile]"

text \<open>The message of the package's test \<^verbatim>\<open>ValidJobId\<close>, and replies of the executor.\<close>

definition example_message :: string where
  "example_message =
     ''Please wait while racadm transfers the file.'' @ [newline] @
     ''File transferred successfully. Initiating the import operation.'' @ [newline] @
     ''RAC977: Import configuration XML file operation initiated.'' @ [newline] @
     ''Use the \"racadm jobqueue view -i JID_000123456789\" command to view the status'' @ [newline] @
     ''of the operation.''"

definition reply_error :: exec_reply where
  "reply_error = (None, Some (New ''exit status 1''))"

definition reply_stdout :: "string \<Rightarrow> exec_reply" where
  "reply_stdout out = (Some \<lparr>Stdout = out, Stderr = []\<rparr>, None)"

definition example_racadm :: Racadm where
  "example_racadm = \<lparr>Host = ''10.0.0.1'', Username = ''root'', Password = ''calvin''\<rparr>"


section \<open>idrac8: the adapter and the device\<close>

text \<open>
  The text of an error, \<^verbatim>\<open>err.Error()\<close>.
\<close>

fun Error :: "error \<Rightarrow> string" where
  "Error (New msg) = msg"
| "Error (Wrap msg err) = msg @ '': '' @ Error err"

text \<open>Decimal printing, the \<^verbatim>\<open>%d\<close> of \<^verbatim>\<open>fmt.Sprintf\<close> and \<^verbatim>\<open>strconv.Itoa\<close>.\<close>

fun digits :: "nat \<Rightarrow> string" where
  "digits n = (if n < 10 then [char_of (48 + n)] else digits (n div 10) @ [char_of (48 + n mod 10)])"

definition Itoa :: "int \<Rightarrow> string" where
  "Itoa i = (if i < 0 then ''-'' @ digits (nat (- i)) else digits (nat i))"

text \<open>
  The fields of \<^verbatim>\<open>IDrac8\<close> that the configuration methods read, apart from the logger.
  The methods \<^verbatim>\<open>get\<close>, \<^verbatim>\<open>post\<close> and \<^verbatim>\<open>put\<close> of the adapter are not part of the
  file: each sends one request and returns a status code, a body and an error.  The
  device is an input of the model: a function from the requests made so far and
  the request to the reply.  Every request is appended to the list of requests.
\<close>

record IDrac8 =
  ip :: string
  st1 :: string

datatype http_method = GET | POST | PUT

record request =
  reqMethod :: http_method
  reqEndpoint :: string
  reqPayload :: string
  reqContentType :: string

record reply =
  replyStatus :: int
  replyBody :: string
  replyErr :: "error option"

type_synonym device = "request list \<Rightarrow> request \<Rightarrow> reply"

definition send :: "device \<Rightarrow> request list \<Rightarrow> request \<Rightarrow> reply \<times> request list" where
  "send dev reqs req = (dev reqs req, reqs @ [req])"

definition get :: "device \<Rightarrow> request list \<Rightarrow> string \<Rightarrow> reply \<times> request list" where
  "get dev reqs ep = send dev reqs \<lparr>reqMethod = GET, reqEndpoint = ep, reqPayload = [], reqContentType = []\<rparr>"

definition post :: "device \<Rightarrow> request list \<Rightarrow> string \<Rightarrow> string \<Rightarrow> string \<Rightarrow> reply \<times> request list" where
  "post dev reqs ep data ctype =
     send dev reqs \<lparr>reqMethod = POST, reqEndpoint = ep, reqPayload = data, reqContentType = ctype\<rparr>"

definition put :: "device \<Rightarrow> request list \<Rightarrow> string \<Rightarrow> string \<Rightarrow> reply \<times> request list" where
  "put dev reqs ep data = send dev reqs \<lparr>reqMethod = PUT, reqEndpoint = ep, reqPayload = data, reqContentType = []\<rparr>"

text \<open>The error the methods make for a status other than 200 on a GET.\<close>

definition non200 :: "string \<Rightarrow> error" where
  "non200 ep = New (''Received a non-200 status code from the GET request to '' @ ep @ ''.'')"


section \<open>idrac8: Network\<close>

record cfg_Network =
  DNSFromDHCP :: bool
  IpmiEnable :: bool
  SolEnable :: bool

text \<open>
  The map \<^verbatim>\<open>params\<close> is read at four keys; each is 1 unless the configuration
  switches it off.  \<^verbatim>\<open>reset\<close> is never assigned.  When the POST returns no error
  and a status other than 200, the method returns the \<^verbatim>\<open>err\<close> of the POST.
\<close>

definition Network_payload :: "cfg_Network \<Rightarrow> string" where
  "Network_payload cfg =
     (let pDNSFromDHCP = (if \<not> DNSFromDHCP cfg then 0 else 1 :: int);
          pEnableIpmiOverLan = (if \<not> IpmiEnable cfg then 0 else 1 :: int);
          pEnableSerialOverLan = (if \<not> SolEnable cfg then 0 else 1 :: int);
          pEnableSerialRedirection = (if \<not> SolEnable cfg then 0 else 1 :: int)
      in ''dhcpForDNSDomain:'' @ Itoa pDNSFromDHCP @ '',''
         @ ''ipmiLAN:'' @ Itoa pEnableIpmiOverLan @ '',''
         @ ''serialOverLanEnabled:'' @ Itoa pEnableSerialOverLan @ '',''
         @ ''serialOverLanBaud:3,''
         @ ''serialOverLanPriv:0,''
         @ ''racRedirectEna:'' @ Itoa pEnableSerialRedirection @ '',''
         @ ''racEscKey:^'' @ [CHR 0x5C, CHR 0x5C])"

definition Network :: "device \<Rightarrow> request list \<Rightarrow> cfg_Network \<Rightarrow> (bool \<times> error option) \<times> request list" where
  "Network dev reqs cfg =
     (let reset = False;
          (r, reqs') = post dev reqs ''data?set'' (Network_payload cfg) []
      in if replyErr r \<noteq> None \<or> replyStatus r \<noteq> 200
         then ((reset, replyErr r), reqs')
         else ((reset, replyErr r), reqs'))"


section \<open>idrac8: Ntp\<close>

record cfg_Ntp =
  Enable :: bool
  Server1 :: string
  Server2 :: string
  Server3 :: string
  Timezone :: string

text \<open>
  \<^verbatim>\<open>applyTimezoneParam\<close> and \<^verbatim>\<open>applyNtpServerParam\<close> have no result: the error they
  make on a failure goes to the logger only.  The named result \<^verbatim>\<open>err\<close> of \<^verbatim>\<open>Ntp\<close>
  is never assigned.
\<close>

definition applyTimezoneParam :: "device \<Rightarrow> request list \<Rightarrow> string \<Rightarrow> request list" where
  "applyTimezoneParam dev reqs timezone =
     (let (r, reqs') = get dev reqs (''data?set=tm_tz_str_zone:'' @ timezone)
      in reqs')"

definition applyNtpServerParam :: "device \<Rightarrow> request list \<Rightarrow> cfg_Ntp \<Rightarrow> request list" where
  "applyNtpServerParam dev reqs cfg =
     (let enable = (if \<not> Enable cfg then 0 else 1 :: int);
          queryStr = ''set=tm_ntp_int_opmode:'' @ Itoa enable @ '',''
            @ ''tm_ntp_str_server1:'' @ Server1 cfg @ '',''
            @ ''tm_ntp_str_server2:'' @ Server2 cfg @ '',''
            @ ''tm_ntp_str_server3:'' @ Server3 cfg @ '','';
          (r, reqs') = get dev reqs (''data?'' @ queryStr)
      in reqs')"

definition Ntp :: "device \<Rightarrow> request list \<Rightarrow> cfg_Ntp \<Rightarrow> error option \<times> request list" where
  "Ntp dev reqs cfg =
     (let err0 = None in
      if Server1 cfg = [] then (err0, reqs)
      else if Timezone cfg = [] then (err0, reqs)
      else (let reqs1 = applyTimezoneParam dev reqs (Timezone cfg);
                reqs2 = applyNtpServerParam dev reqs1 cfg
            in (err0, reqs2)))"


section \<open>idrac8: Syslog\<close>

record cfg_Syslog =
  Server :: string
  Port :: int
  Enable :: bool

text \<open>The adapter's own \<^verbatim>\<open>Syslog\<close> payload, whose fields are strings.\<close>

record Syslog_payload =
  Port :: string
  Server1 :: string
  Server2 :: string
  Server3 :: string
  Enable :: string

text \<open>
  \<^verbatim>\<open>json.Marshal\<close> and the constant \<^verbatim>\<open>setAlertFilterPayload\<close> are outside the file;
  they are parameters.  The named result \<^verbatim>\<open>err\<close> is nil when the method returns at
  the check of \<^verbatim>\<open>cfg.Server\<close>.  The status codes of the three requests are not read.
\<close>

definition Syslog ::
  "(Syslog_payload \<Rightarrow> string \<times> error option) \<Rightarrow> string \<Rightarrow> device \<Rightarrow> request list \<Rightarrow> cfg_Syslog
   \<Rightarrow> error option \<times> request list"
where
  "Syslog jsonMarshal setAlertFilterPayload dev reqs cfg =
     (let err0 = None; enable = ''Enabled'' in
      if cfg_Syslog.Server cfg = [] then (err0, reqs)
      else
        (let port = (if cfg_Syslog.Port cfg = 0 then 514 else cfg_Syslog.Port cfg);
             enable = (if \<not> cfg_Syslog.Enable cfg then ''Disabled'' else enable);
             data = \<lparr>Syslog_payload.Port = Itoa port,
                     Server1 = cfg_Syslog.Server cfg, Server2 = [], Server3 = [],
                     Enable = enable\<rparr>;
             (payload, err1) = jsonMarshal data
         in if err1 \<noteq> None then (err1, reqs)
            else
              (let (r1, reqs1) = put dev reqs ''sysmgmt/2012/server/configgroup/iDRAC.SysLog'' payload
               in if replyErr r1 \<noteq> None then (replyErr r1, reqs1)
                  else
                    (let (r2, reqs2) = post dev reqs1 ''data?set=alertStatus:1'' [] []
                     in if replyErr r2 \<noteq> None then (replyErr r2, reqs2)
                        else
                          (let (r3, reqs3) =
                                 post dev reqs2 (''data?set='' @ setAlertFilterPayload) [] []
                           in if replyErr r3 \<noteq> None then (replyErr r3, reqs3)
                              else (replyErr r3, reqs3))))))"


section \<open>idrac8: Ldap and LdapGroups\<close>

record cfg_Ldap =
  Server :: string
  Port :: int
  BaseDn :: string
  UserAttribute :: string
  GroupAttribute :: string
  BindDn :: string
  SearchFilter :: string

record cfg_LdapGroup =
  Role :: string
  Group :: string
  GroupBaseDn :: string
  Enable :: bool

text \<open>
  \<^verbatim>\<open>escapeLdapString\<close> ranges over the runes of the string and appends to \<^verbatim>\<open>r\<close>.
  Ranging over a Go string decodes UTF-8: a byte below \<open>0x80\<close> is a rune of its own;
  otherwise the run-time decodes a sequence of two to four bytes, and yields
  \<open>U+FFFD\<close> with width 1 when the bytes are no valid encoding.  \<^verbatim>\<open>string(c)\<close> encodes
  the rune again.  Bit masks and shifts are written as \<open>mod\<close>, \<open>div\<close> and products.
\<close>

type_synonym rune = nat

definition RuneError :: rune where
  "RuneError = 0xFFFD"

definition cont :: "char \<Rightarrow> bool" where
  "cont b = (0x80 \<le> (of_char b :: nat) \<and> (of_char b :: nat) \<le> 0xBF)"

definition decoderune :: "string \<Rightarrow> rune \<times> nat" where
  "decoderune s =
     (let n = length s; b = (\<lambda>i. (of_char (s ! i) :: nat)) in
      if n = 0 then (RuneError, 1)
      else if 0xC0 \<le> b 0 \<and> b 0 < 0xE0 then
        (if n > 1 \<and> cont (s ! 1) then
           (let r = (b 0 mod 32) * 64 + b 1 mod 64
            in if 0x7F < r then (r, 2) else (RuneError, 1))
         else (RuneError, 1))
      else if 0xE0 \<le> b 0 \<and> b 0 < 0xF0 then
        (if n > 2 \<and> cont (s ! 1) \<and> cont (s ! 2) then
           (let r = (b 0 mod 16) * 4096 + (b 1 mod 64) * 64 + b 2 mod 64
            in if 0x7FF < r \<and> \<not> (0xD800 \<le> r \<and> r \<le> 0xDFFF) then (r, 3) else (RuneError, 1))
         else (RuneError, 1))
      else if 0xF0 \<le> b 0 \<and> b 0 < 0xF8 then
        (if n > 3 \<and> cont (s ! 1) \<and> cont (s ! 2) \<and> cont (s ! 3) then
           (let r = (b 0 mod 8) * 262144 + (b 1 mod 64) * 4096 + (b 2 mod 64) * 64 + b 3 mod 64
            in if 0xFFFF < r \<and> r \<le> 0x10FFFF then (r, 4) else (RuneError, 1))
         else (RuneError, 1))
      else (RuneError, 1))"

fun runes :: "string \<Rightarrow> rune list" where
  "runes [] = []"
| "runes (c # cs) =
     (if (of_char c :: nat) < 0x80 then of_char c # runes cs
      else fst (decoderune (c # cs)) # runes (drop (snd (decoderune (c # cs)) - 1) cs))"

definition encoderune :: "rune \<Rightarrow> string" where
  "encoderune r =
     (if r \<le> 0x7F then [char_of r]
      else if r \<le> 0x7FF then [char_of (0xC0 + r div 64), char_of (0x80 + r mod 64)]
      else if r > 0x10FFFF \<or> (0xD800 \<le> r \<and> r \<le> 0xDFFF) then
        [char_of (0xEF :: nat), char_of (0xBF :: nat), char_of (0xBD :: nat)]
      else if r \<le> 0xFFFF then
        [char_of (0xE0 + r div 4096), char_of (0x80 + (r div 64) mod 64), char_of (0x80 + r mod 64)]
      else
        [char_of (0xF0 + r div 262144), char_of (0x80 + (r div 4096) mod 64),
         char_of (0x80 + (r div 64) mod 64), char_of (0x80 + r mod 64)])"

fun escapeLdapString_loop :: "string \<Rightarrow> rune list \<Rightarrow> string" where
  "escapeLdapString_loop r [] = r"
| "escapeLdapString_loop r (c # cs) =
     escapeLdapString_loop
       (if c = of_char CHR ''='' then r @ ''%5C%3D''
        else if c = of_char CHR '','' then r @ ''%5C%2C''
        else r @ encoderune c) cs"

definition escapeLdapString :: "string \<Rightarrow> string" where
  "escapeLdapString s = escapeLdapString_loop [] (runes s)"



text \<open>
  \<^verbatim>\<open>Ldap\<close> checks the server, sets it with a GET, then \<^verbatim>\<open>applyLdapSearchFilterParam\<close>
  checks and sets the search filter.
\<close>

definition applyLdapSearchFilterParam ::
  "device \<Rightarrow> request list \<Rightarrow> cfg_Ldap \<Rightarrow> error option \<times> request list"
where
  "applyLdapSearchFilterParam dev reqs cfg =
     (if SearchFilter cfg = [] then
        (Some (New ''Ldap resource parameter SearchFilter required but not declared.''), reqs)
      else
        (let ep = ''data?set=xGLSearchFilter:'' @ escapeLdapString (SearchFilter cfg);
             (r, reqs') = get dev reqs ep
         in if replyErr r \<noteq> None \<or> replyStatus r \<noteq> 200 then
              ((if replyErr r = None then Some (non200 ep) else replyErr r), reqs')
            else (None, reqs')))"

definition Ldap :: "device \<Rightarrow> request list \<Rightarrow> cfg_Ldap \<Rightarrow> error option \<times> request list" where
  "Ldap dev reqs cfg =
     (if cfg_Ldap.Server cfg = [] then
        (Some (New ''LDAP resource parameter \"Server\" required but not declared.''), reqs)
      else
        (let ep = ''data?set=xGLServer:'' @ cfg_Ldap.Server cfg;
             (r, reqs') = get dev reqs ep
         in if replyErr r \<noteq> None \<or> replyStatus r \<noteq> 200 then
              ((if replyErr r = None then Some (non200 ep) else replyErr r), reqs')
            else
              (case applyLdapSearchFilterParam dev reqs' cfg of
                 (Some e, reqs'') \<Rightarrow> (Some e, reqs'')
               | (None, reqs'') \<Rightarrow> (None, reqs''))))"

text \<open>
  \<^verbatim>\<open>applyLdapRoleGroupPrivParam\<close> posts the privileges.  As in \<^verbatim>\<open>Network\<close>, a status
  other than 200 with no error of the transport returns the \<^verbatim>\<open>err\<close> of the POST.
\<close>

definition applyLdapRoleGroupPrivParam ::
  "device \<Rightarrow> request list \<Rightarrow> cfg_Ldap \<Rightarrow> string \<Rightarrow> error option \<times> request list"
where
  "applyLdapRoleGroupPrivParam dev reqs cfg groupPrivilegeParam =
     (let baseDn = escapeLdapString (BaseDn cfg);
          data = ''data=LDAPEnableMode:3,''
            @ ''xGLNameSearchEnabled:0,''
            @ ''xGLBaseDN:'' @ baseDn @ '',''
            @ ''xGLUserLogin:'' @ UserAttribute cfg @ '',''
            @ ''xGLGroupMem:'' @ GroupAttribute cfg @ '',''
            @ (if BindDn cfg \<noteq> [] then ''xGLBindDN:'' @ escapeLdapString (BindDn cfg) @ '',''
               else ''xGLBindDN:,'')
            @ ''xGLCertValidationEnabled:0,''
            @ groupPrivilegeParam
            @ ''xGLServerPort:'' @ Itoa (cfg_Ldap.Port cfg);
          (r, reqs') = post dev reqs ''postset?ldapconf'' data []
      in if replyErr r \<noteq> None \<or> replyStatus r \<noteq> 200 then (replyErr r, reqs')
         else (replyErr r, reqs'))"

text \<open>
  The loop of \<^verbatim>\<open>LdapGroups\<close> over the groups carries \<^verbatim>\<open>groupID\<close>, \<^verbatim>\<open>privID\<close> and
  \<^verbatim>\<open>groupPrivilegeParam\<close>; it ends with an error (\<open>Inl\<close>) or with the three values.
  \<^verbatim>\<open>internal.IsRoleValid\<close> is outside the file and is a parameter.
\<close>

fun LdapGroups_loop ::
  "(string \<Rightarrow> bool) \<Rightarrow> device \<Rightarrow> request list \<Rightarrow> cfg_LdapGroup list \<Rightarrow> int \<Rightarrow> string \<Rightarrow> string
   \<Rightarrow> (error + int \<times> string \<times> string) \<times> request list"
where
  "LdapGroups_loop IsRoleValid dev reqs [] groupID privID groupPrivilegeParam =
     (Inr (groupID, privID, groupPrivilegeParam), reqs)"
| "LdapGroups_loop IsRoleValid dev reqs (grp # rest) groupID privID groupPrivilegeParam =
     (if \<not> cfg_LdapGroup.Enable grp then
        LdapGroups_loop IsRoleValid dev reqs rest groupID privID groupPrivilegeParam
      else if Role grp = [] then
        LdapGroups_loop IsRoleValid dev reqs rest groupID privID groupPrivilegeParam
      else if Group grp = [] then
        (Inl (New ''LDAP resource parameter \"Group\" is required!''), reqs)
      else if GroupBaseDn grp = [] then
        (Inl (New ''LDAP resource parameter \"GroupBaseDn\" is required!''), reqs)
      else if \<not> IsRoleValid (Role grp) then
        (Inl (New ''LDAP resource parameter \"Role\" must be a valid role: \"admin\" OR \"user\".''), reqs)
      else
        (let groupDn = escapeLdapString (Group grp @ '','' @ GroupBaseDn grp);
             ep = ''data?set=xGLGroup'' @ Itoa groupID @ ''Name:'' @ groupDn;
             (r, reqs') = get dev reqs ep
         in if replyErr r \<noteq> None \<or> replyStatus r \<noteq> 200 then
              (Inl (case replyErr r of None \<Rightarrow> non200 ep | Some e \<Rightarrow> e), reqs')
            else
              (let privID' = (if Role grp = ''user'' then ''497''
                              else if Role grp = ''admin'' then ''511''
                              else privID);
                   groupPrivilegeParam' = groupPrivilegeParam
                     @ ''xGLGroup'' @ Itoa groupID @ ''Priv:'' @ privID' @ '',''
               in LdapGroups_loop IsRoleValid dev reqs' rest (groupID + 1) privID' groupPrivilegeParam')))"

definition LdapGroups ::
  "(string \<Rightarrow> bool) \<Rightarrow> device \<Rightarrow> request list \<Rightarrow> cfg_LdapGroup list \<Rightarrow> cfg_Ldap
   \<Rightarrow> error option \<times> request list"
where
  "LdapGroups IsRoleValid dev reqs cfgGroups cfgLdap =
     (if cfg_Ldap.Port cfgLdap = 0 then
        (Some (New ''LDAP resource parameter \"Port\" is required!''), reqs)
      else if BaseDn cfgLdap = [] then
        (Some (New ''LDAP resource parameter \"BaseDn\" is required!''), reqs)
      else if UserAttribute cfgLdap = [] then
        (Some (New ''LDAP resource parameter \"userAttribute\" is required!''), reqs)
      else if GroupAttribute cfgLdap = [] then
        (Some (New ''LDAP resource parameter \"groupAttribute\" is required!''), reqs)
      else
        (case LdapGroups_loop IsRoleValid dev reqs cfgGroups 1 ''0'' [] of
           (Inl e, reqs') \<Rightarrow> (Some e, reqs')
         | (Inr (groupID, privID, groupPrivilegeParam), reqs') \<Rightarrow>
             (let groupPrivilegeParam' = groupPrivilegeParam
                    @ concat (map (\<lambda>i. ''xGLGroup'' @ Itoa i @ ''Priv:0,'') [groupID..5])
              in case applyLdapRoleGroupPrivParam dev reqs' cfgLdap groupPrivilegeParam' of
                   (Some e, reqs'') \<Rightarrow> (Some e, reqs'')
                 | (None, reqs'') \<Rightarrow> (None, reqs''))))"


section \<open>idrac8: User\<close>

text \<open>
  A user of the configuration and a user slot of the device.  The helpers
  \<^verbatim>\<open>internal.ValidateUserConfig\<close>, \<^verbatim>\<open>queryUsers\<close>, \<^verbatim>\<open>userInIdrac\<close>,
  \<^verbatim>\<open>getEmptyUserSlot\<close> and \<^verbatim>\<open>putUser\<close> are outside the file and are parameters; the
  table of users they work on is of any type.  The calls of \<^verbatim>\<open>queryUsers\<close> and
  \<^verbatim>\<open>putUser\<close> go to the device: they are recorded, and what \<^verbatim>\<open>putUser\<close> returns may
  depend on the calls made before.
\<close>

record cfg_User =
  Name :: string
  Password :: string
  Role :: string
  Enable :: bool

record idrac_User =
  UserName :: string
  Password :: string
  Enable :: string
  SolEnable :: string
  Privilege :: string
  IpmiLanPrivilege :: string

datatype call = QueryUsers | PutUser int idrac_User

record 'tbl user_env =
  ValidateUserConfig :: "cfg_User list \<Rightarrow> error option"
  queryUsers :: "'tbl \<times> error option"
  userInIdrac :: "string \<Rightarrow> 'tbl \<Rightarrow> int \<times> idrac_User \<times> bool"
  getEmptyUserSlot :: "'tbl \<Rightarrow> int \<times> idrac_User \<times> error option"
  putUser :: "call list \<Rightarrow> int \<Rightarrow> idrac_User \<Rightarrow> error option"

text \<open>
  A record of the logger: the error (for \<^verbatim>\<open>Error\<close>), the message, and the keys
  \<open>step\<close> and \<open>User\<close> where the call gives them as literals or as the user's name.
\<close>

datatype log_entry =
    LogError error string "(string \<times> string) list"
  | LogInfo string "(string \<times> string) list"

definition enabledUser :: "cfg_User \<Rightarrow> idrac_User \<Rightarrow> idrac_User" where
  "enabledUser cfgUser userInfo =
     userInfo\<lparr>idrac_User.Enable := ''Enabled'',
              SolEnable := ''Enabled'',
              UserName := Name cfgUser,
              idrac_User.Password := cfg_User.Password cfgUser,
              Privilege := (if cfg_User.Role cfgUser = ''admin'' then ''511'' else ''499''),
              IpmiLanPrivilege :=
                (if cfg_User.Role cfgUser = ''admin'' then ''Administrator'' else ''Operator'')\<rparr>"

definition disabledUser :: "cfg_User \<Rightarrow> idrac_User \<Rightarrow> idrac_User" where
  "disabledUser cfgUser userInfo =
     userInfo\<lparr>idrac_User.Enable := ''Disabled'',
              SolEnable := ''Disabled'',
              UserName := Name cfgUser,
              Privilege := ''0'',
              IpmiLanPrivilege := ''No Access''\<rparr>"

text \<open>
  One iteration of the loop of \<^verbatim>\<open>User\<close>, on the variable \<^verbatim>\<open>err\<close>, the log and the
  calls.  A \<^verbatim>\<open>continue\<close> skips the rest of the iteration, the final \<^verbatim>\<open>Info\<close> too.
\<close>

definition User_step ::
  "'tbl user_env \<Rightarrow> 'tbl \<Rightarrow> error option \<times> log_entry list \<times> call list \<Rightarrow> cfg_User
   \<Rightarrow> error option \<times> log_entry list \<times> call list"
where
  "User_step env idracUsers st cfgUser =
     (case st of (err0, logs, calls) \<Rightarrow>
      (case userInIdrac env (Name cfgUser) idracUsers of (userID0, userInfo0, uExists) \<Rightarrow>
       if cfg_User.Enable cfgUser then
         (case (if \<not> uExists then getEmptyUserSlot env idracUsers
                else (userID0, userInfo0, None)) of
            (userID, userInfo, Some e) \<Rightarrow>
              (Some e, logs @ [LogError e ''Unable to add new User.'' [(''User'', Name cfgUser)]],
               calls)
          | (userID, userInfo, None) \<Rightarrow>
              (let userInfo' = enabledUser cfgUser userInfo;
                   calls' = calls @ [PutUser userID userInfo']
               in case putUser env calls userID userInfo' of
                    Some e \<Rightarrow>
                      (Some e, logs @ [LogError e ''User(): Add/Update user request failed.''
                                         [(''User'', Name cfgUser)]], calls')
                  | None \<Rightarrow>
                      (None, logs @ [LogInfo ''User parameters applied.''
                                       [(''User'', Name cfgUser)]], calls')))
       else if uExists then
         (let userInfo' = disabledUser cfgUser userInfo0;
              calls' = calls @ [PutUser userID0 userInfo']
          in case putUser env calls userID0 userInfo' of
               Some e \<Rightarrow>
                 (Some e, logs @ [LogError e ''User(): Disable user request failed.''
                                    [(''User'', Name cfgUser)],
                                  LogInfo ''User parameters applied.'' [(''User'', Name cfgUser)]],
                  calls')
             | None \<Rightarrow>
                 (None, logs @ [LogInfo ''User parameters applied.'' [(''User'', Name cfgUser)]],
                  calls'))
       else
         (err0, logs @ [LogInfo ''User parameters applied.'' [(''User'', Name cfgUser)]], calls)))"

definition User ::
  "'tbl user_env \<Rightarrow> cfg_User list \<Rightarrow> error option \<times> log_entry list \<times> call list"
where
  "User env cfgUsers =
     (case ValidateUserConfig env cfgUsers of
        Some e \<Rightarrow>
          (let msg = ''User config validation failed: '' @ Error e
           in (Some (New msg), [LogError (New msg) msg [(''step'', ''applyUserParams'')]], []))
      | None \<Rightarrow>
          (case queryUsers env of
             (idracUsers, Some e) \<Rightarrow>
               (let msg = ''Unable to query existing users.''
                in (Some (New msg), [LogError (New msg) msg [(''step'', ''applyUserParams'')]],
                    [QueryUsers]))
           | (idracUsers, None) \<Rightarrow>
               foldl (User_step env idracUsers) (None, [], [QueryUsers]) cfgUsers))"


section \<open>idrac8: UploadHTTPSCert\<close>

text \<open>
  The multipart writer and the JSON coder are outside the file.  Of the writer the
  model keeps the errors of \<^verbatim>\<open>CreateFormFile\<close> and \<^verbatim>\<open>io.Copy\<close>, the bytes of the
  finished form and its content type; of the coder, the \<^verbatim>\<open>File\<close> that
  \<^verbatim>\<open>json.Unmarshal\<close> reads from the body and the bytes \<^verbatim>\<open>json.Marshal\<close> makes of it.
\<close>

record 'f cert_lib =
  CreateFormFile :: "string \<Rightarrow> error option"
  Copy :: "string \<Rightarrow> error option"
  formBytes :: "string \<Rightarrow> string \<Rightarrow> string"
  FormDataContentType :: string
  Unmarshal :: "string \<Rightarrow> 'f \<times> error option"
  Marshal :: "'f \<Rightarrow> string \<times> error option"

definition certUploadEndpoint :: "IDrac8 \<Rightarrow> string" where
  "certUploadEndpoint i = ''sysmgmt/2012/server/transient/filestore?fileupload=true'' @ ''&ST1='' @ st1 i"

definition certEndpoint :: string where
  "certEndpoint = ''sysmgmt/2012/server/network/ssl/cert''"

definition expected201 :: "string \<Rightarrow> error" where
  "expected201 ep = New (''Cert form upload POST request to '' @ ep @ '' failed, expected 201.'')"

definition UploadHTTPSCert ::
  "IDrac8 \<Rightarrow> 'f cert_lib \<Rightarrow> device \<Rightarrow> request list \<Rightarrow> string \<Rightarrow> string \<Rightarrow> string \<Rightarrow> string
   \<Rightarrow> (bool \<times> error option) \<times> request list"
where
  "UploadHTTPSCert i lib dev reqs cert certFileName key keyFileName =
     (case CreateFormFile lib certFileName of
        Some e \<Rightarrow> ((False, Some e), reqs)
      | None \<Rightarrow>
     (case Copy lib cert of
        Some e \<Rightarrow> ((False, Some e), reqs)
      | None \<Rightarrow>
     (let (r1, reqs1) = post dev reqs (certUploadEndpoint i) (formBytes lib certFileName cert)
                          (FormDataContentType lib)
      in if replyErr r1 \<noteq> None \<or> replyStatus r1 \<noteq> 201 then
           ((False, (if replyErr r1 = None then Some (expected201 (certUploadEndpoint i))
                     else replyErr r1)), reqs1)
         else
           (case Unmarshal lib (replyBody r1) of
              (file, Some e) \<Rightarrow> ((False, Some e), reqs1)
            | (file, None) \<Rightarrow>
           (case Marshal lib file of
              (resourceURI, Some e) \<Rightarrow> ((False, Some e), reqs1)
            | (resourceURI, None) \<Rightarrow>
           (let (r2, reqs2) = post dev reqs1 certEndpoint resourceURI []
            in if replyErr r2 \<noteq> None \<or> replyStatus r2 \<noteq> 201 then
                 ((False, (if replyErr r2 = None then Some (expected201 certEndpoint)
                           else replyErr r2)), reqs2)
               else ((True, replyErr r2), reqs2)))))))"


section \<open>idrac8: devices and configurations for the concrete cases\<close>

text \<open>A device that answers every request with one status and no error of the transport.\<close>

definition device_status :: "int \<Rightarrow> device" where
  "device_status code = (\<lambda>reqs req. \<lparr>replyStatus = code, replyBody = ''{}'', replyErr = None\<rparr>)"

definition example_idrac :: IDrac8 where
  "example_idrac = \<lparr>ip = ''10.0.0.2'', st1 = ''f00d''\<rparr>"

definition example_cert_lib :: "string cert_lib" where
  "example_cert_lib =
     \<lparr>CreateFormFile = (\<lambda>name. None),
      Copy = (\<lambda>cert. None),
      formBytes = (\<lambda>name cert. cert),
      FormDataContentType = ''multipart/form-data'',
      Unmarshal = (\<lambda>body. (body, None)),
      Marshal = (\<lambda>file. (file, None))\<rparr>"

definition example_network :: cfg_Network where
  "example_network = \<lparr>DNSFromDHCP = True, IpmiEnable = True, SolEnable = True\<rparr>"

definition example_ntp :: cfg_Ntp where
  "example_ntp = \<lparr>cfg_Ntp.Enable = True, Server1 = ''ntp0.example.com'', Server2 = [], Server3 = [],
                  Timezone = ''CET''\<rparr>"

definition example_ldap :: cfg_Ldap where
  "example_ldap = \<lparr>cfg_Ldap.Server = ''ldap.example.com'', Port = 636,
                   BaseDn = ''ou=People,dc=example,dc=com'', UserAttribute = ''uid'',
                   GroupAttribute = ''memberUid'', BindDn = [], SearchFilter = ''objectClass=posixAccount''\<rparr>"












section \<open>Facts about the string functions\<close>

lemma Index_ge_minus1: "-1 \<le> Index s sub"
  by (induction s) (auto simp: Let_def)

lemma Index_le_length: "Index s sub \<le> int (length s)"
  by (induction s) (auto simp: Let_def)

lemma Index_prefix: "0 \<le> Index s sub \<Longrightarrow> prefix sub (drop (nat (Index s sub)) s)"
proof (induction s)
  case Nil
  then show ?case by (auto split: if_splits)
next
  case (Cons c cs)
  show ?case
  proof (cases "prefix sub (c # cs)")
    case True
    then show ?thesis by simp
  next
    case False
    with Cons.prems have nn: "0 \<le> Index cs sub"
      by (auto simp: Let_def split: if_splits)
    with False have "Index (c # cs) sub = Index cs sub + 1"
      by (simp add: Let_def)
    moreover have "nat (Index cs sub + 1) = Suc (nat (Index cs sub))"
      using nn by simp
    ultimately show ?thesis using Cons.IH [OF nn] by simp
  qed
qed

lemma Index_first: "j < nat (Index s sub) \<Longrightarrow> \<not> prefix sub (drop j s)"
proof (induction s arbitrary: j)
  case Nil
  then show ?case by (auto split: if_splits)
next
  case (Cons c cs)
  show ?case
  proof (cases "prefix sub (c # cs)")
    case True
    with Cons.prems show ?thesis by simp
  next
    case False
    show ?thesis
    proof (cases j)
      case 0
      with False show ?thesis by simp
    next
      case (Suc k)
      with Cons.prems False have "k < nat (Index cs sub)"
        by (auto simp: Let_def split: if_splits)
      from Cons.IH [OF this] Suc show ?thesis by simp
    qed
  qed
qed

lemma Index_none: "Index s sub < 0 \<Longrightarrow> \<not> prefix sub (drop j s)"
proof (induction s arbitrary: j)
  case Nil
  then show ?case by (auto split: if_splits)
next
  case (Cons c cs)
  then show ?case
    by (cases j) (auto simp: Let_def split: if_splits)
qed

lemma Contains_iff_sublist: "Contains s sub \<longleftrightarrow> sublist sub s"
proof
  assume "Contains s sub"
  then have "prefix sub (drop (nat (Index s sub)) s)"
    by (simp add: Contains_def Index_prefix)
  then obtain zs where "drop (nat (Index s sub)) s = sub @ zs"
    by (auto simp: prefix_def)
  then have "s = take (nat (Index s sub)) s @ sub @ zs"
    by (metis append_take_drop_id)
  then show "sublist sub s"
    unfolding sublist_def by blast
next
  assume "sublist sub s"
  then obtain ps ss where s: "s = ps @ sub @ ss"
    by (auto simp: sublist_def)
  then have "prefix sub (drop (length ps) s)" by simp
  then have "\<not> Index s sub < 0" using Index_none by blast
  then show "Contains s sub" by (simp add: Contains_def)
qed



lemma Split_nonempty: "Split s sep \<noteq> []"
  by (induction s) (auto split: list.splits)

lemma Split_hd_prefix: "prefix (hd (Split s sep)) s"
  by (induction s) (auto split: list.splits simp: Split_nonempty)

lemma Split_line_sublist: "l \<in> set (Split s sep) \<Longrightarrow> sublist l s"
proof (induction s arbitrary: l)
  case Nil
  then show ?case by simp
next
  case (Cons c cs)
  obtain h t where ht: "Split cs sep = h # t"
    using Split_nonempty by (cases "Split cs sep") auto
  have hp: "prefix h cs" using Split_hd_prefix [of cs sep] ht by simp
  show ?case
  proof (cases "c = sep")
    case True
    with Cons.prems have "l = [] \<or> l \<in> set (Split cs sep)" by auto
    then show ?thesis
      using Cons.IH by (auto simp: sublist_Cons_right)
  next
    case False
    with ht Cons.prems have "l = c # h \<or> l \<in> set t" by auto
    then show ?thesis
    proof
      assume "l = c # h"
      then have "prefix l (c # cs)" using hp by simp
      then show ?thesis by (rule prefix_imp_sublist)
    next
      assume "l \<in> set t"
      then have "sublist l cs" using Cons.IH ht by simp
      then show ?thesis by (simp add: sublist_Cons_right)
    qed
  qed
qed

lemma example_lines:
  "Split example_message newline =
     [''Please wait while racadm transfers the file.'',
      ''File transferred successfully. Initiating the import operation.'',
      ''RAC977: Import configuration XML file operation initiated.'',
      ''Use the \"racadm jobqueue view -i JID_000123456789\" command to view the status'',
      ''of the operation.'']"
  by (simp add: example_message_def newline_def)


section \<open>Properties of parseJobId\<close>

lemma parseJobId_lines_none:
  "\<forall>l \<in> set ls. \<not> Contains l ''JID_'' \<Longrightarrow>
   parseJobId_lines ls = Returns (Inl (New ''failed to find JobID in output''))"
  by (induction ls) auto

lemma parseJobId_lines_find:
  "find (\<lambda>l. Contains l ''JID_'') ls = Some line \<Longrightarrow>
   parseJobId_lines ls =
     (case slice line (Index line ''JID_'') (Index line ''JID_'' + 16) of
        None \<Rightarrow> Panics | Some jobId \<Rightarrow> Returns (Inr jobId))"
proof (induction ls)
  case Nil
  then show ?case by simp
next
  case (Cons l ls)
  show ?case
  proof (cases "Contains l ''JID_''")
    case True
    with Cons.prems have "l = line" by simp
    moreover from True have "Index l ''JID_'' \<noteq> -1" by (simp add: Contains_def)
    ultimately show ?thesis using True by (simp add: Let_def)
  next
    case False
    with Cons show ?thesis by simp
  qed
qed

lemma no_marker_in_lines:
  assumes "\<not> Contains message sub" and "l \<in> set (Split message sep)"
  shows "\<not> Contains l sub"
proof
  assume "Contains l sub"
  then have "sublist sub l" by (simp add: Contains_iff_sublist)
  moreover have "sublist l message" using assms(2) by (rule Split_line_sublist)
  ultimately have "sublist sub message"
    unfolding sublist_def by (metis append.assoc)
  with assms(1) show False by (simp add: Contains_iff_sublist)
qed

text \<open>
  What \<^verbatim>\<open>parseJobId\<close> does off the panic.  When the input has no occurrence of
  \<open>JID_\<close>, it returns the parse error.  When the first line that contains \<open>JID_\<close>
  has at least 12 further bytes after the first occurrence of \<open>JID_\<close> in it, it
  returns the 16 bytes that start at that occurrence: the line is
  \<open>pre @ jobId @ post\<close>, the token \<open>jobId\<close> has 16 bytes and starts with \<open>JID_\<close>, and
  \<open>JID_\<close> starts at no earlier position of the line.
\<close>

lemma parseJobId_first_marked_line:
  "(\<not> Contains message ''JID_'' \<longrightarrow>
      parseJobId message = Returns (Inl (New ''failed to find JobID in output'')))
   \<and> (\<forall>line. find (\<lambda>l. Contains l ''JID_'') (Split message newline) = Some line
          \<and> Index line ''JID_'' + 16 \<le> int (length line)
       \<longrightarrow> (\<exists>pre jobId post.
              line = pre @ jobId @ post \<and> length jobId = 16 \<and> prefix ''JID_'' jobId
              \<and> (\<forall>j < length pre. \<not> prefix ''JID_'' (drop j line))
              \<and> parseJobId message = Returns (Inr jobId)))"
proof (intro conjI impI allI)
  assume "\<not> Contains message ''JID_''"
  then have "\<forall>l \<in> set (Split message newline). \<not> Contains l ''JID_''"
    using no_marker_in_lines by blast
  then show "parseJobId message = Returns (Inl (New ''failed to find JobID in output''))"
    unfolding parseJobId_def by (rule parseJobId_lines_none)
next
  fix line
  assume a: "find (\<lambda>l. Contains l ''JID_'') (Split message newline) = Some line
     \<and> Index line ''JID_'' + 16 \<le> int (length line)"
  define idx where "idx = Index line ''JID_''"
  define n where "n = nat idx"
  from a have "Contains line ''JID_''"
    by (auto simp: find_Some_iff)
  then have nn: "0 \<le> idx" by (simp add: Contains_def idx_def)
  from a have len: "n + 16 \<le> length line" using nn unfolding idx_def n_def by linarith
  define pre where "pre = take n line"
  define jobId where "jobId = take 16 (drop n line)"
  define post where "post = drop (n + 16) line"
  have sl: "slice line idx (idx + 16) = Some jobId"
    using nn len a by (simp add: slice_def jobId_def n_def idx_def)
  have 1: "line = pre @ jobId @ post"
    unfolding pre_def jobId_def post_def
    by (metis add.commute append_take_drop_id drop_drop)
  have 2: "length jobId = 16" using len by (simp add: jobId_def)
  have "prefix ''JID_'' (drop n line)"
    using Index_prefix [of line "''JID_''"] nn by (simp add: idx_def n_def)
  then have 3: "prefix ''JID_'' jobId"
    unfolding jobId_def prefix_def by auto
  have lp: "length pre = n" using len by (simp add: pre_def)
  have 4: "\<forall>j < length pre. \<not> prefix ''JID_'' (drop j line)"
    using Index_first [of _ line "''JID_''"] lp by (simp add: idx_def n_def)
  have 5: "parseJobId message = Returns (Inr jobId)"
    using parseJobId_lines_find [of "Split message newline" line] a sl
    by (simp add: parseJobId_def idx_def)
  from 1 2 3 4 5 show "\<exists>pre jobId post.
              line = pre @ jobId @ post \<and> length jobId = 16 \<and> prefix ''JID_'' jobId
              \<and> (\<forall>j < length pre. \<not> prefix ''JID_'' (drop j line))
              \<and> parseJobId message = Returns (Inr jobId)"
    by blast
qed

lemma parseJobId_example:
  "parseJobId example_message = Returns (Inr ''JID_000123456789'')"
  by (simp add: example_lines parseJobId_def Contains_def slice_def)

text \<open>
  C3 at a message whose first line holds a cut-off job id and whose second line holds
  \<open>JID_\<close> followed by 12 further characters.  The second line is the first line in
  which \<open>JID_\<close> is followed by 12 characters, so the claim has \<^verbatim>\<open>parseJobId\<close> return
  \<open>JID_000123456789\<close>.  The code stops at the first line that contains \<open>JID_\<close>
  at all; there \<open>idx\<close> is 4, the line has 11 bytes, the slice \<^verbatim>\<open>line[4:20]\<close> is out
  of range and the call panics.
\<close>

theorem parseJobId_later_line_panics:
  "Split (''job JID_123'' @ [newline] @ ''JID_000123456789'') newline
     = [''job JID_123'', ''JID_000123456789'']
   \<and> Index ''job JID_123'' ''JID_'' = 4
   \<and> length ''job JID_123'' = 11
   \<and> slice ''job JID_123'' 4 20 = None
   \<and> Contains ''JID_000123456789'' ''JID_''
   \<and> Index ''JID_000123456789'' ''JID_'' + 16 \<le> int (length ''JID_000123456789'')
   \<and> parseJobId (''job JID_123'' @ [newline] @ ''JID_000123456789'') = Panics"
  by (simp add: parseJobId_def Contains_def slice_def newline_def)

text \<open>
  C5: \<^verbatim>\<open>parseJobId\<close> on an input whose first \<open>JID_\<close> is followed by fewer than 12
  bytes.  The slice \<^verbatim>\<open>line[idx : idx+16]\<close> is out of the bounds of the line and the
  call panics: it returns neither a job id nor an error.
\<close>

theorem parseJobId_short_token_panics:
  "Index ''JID_123'' ''JID_'' = 0
   \<and> slice ''JID_123'' 0 16 = None
   \<and> parseJobId ''JID_123'' = Panics"
  by (simp add: parseJobId_def Contains_def slice_def newline_def)


section \<open>Properties of parsePercentComplete\<close>

lemma matchHere_cases:
  "matchHere s = [] \<or>
   (\<exists>ds. matchHere s = [''Percent Complete=['' @ ds @ '']'', ds] \<and> ds \<noteq> [] \<and> list_all isDigit ds
      \<and> prefix (''Percent Complete=['' @ ds @ '']'') s)"
proof (cases "matchHere s = []")
  case True
  then show ?thesis by simp
next
  case False
  define rest where "rest = drop 18 s"
  define ds where "ds = takeWhile isDigit rest"
  define after where "after = dropWhile isDigit rest"
  from False have p: "prefix ''Percent Complete=['' s" and ne: "ds \<noteq> []" and br: "prefix '']'' after"
    and m: "matchHere s = [''Percent Complete=['' @ ds @ '']'', ds]"
    unfolding matchHere_def rest_def ds_def after_def Let_def by (auto split: if_splits)
  have digs: "list_all isDigit ds"
    unfolding ds_def list_all_iff by (auto dest: set_takeWhileD)
  from p have s: "s = ''Percent Complete=['' @ rest"
    unfolding rest_def prefix_def by auto
  have "rest = ds @ after" unfolding ds_def after_def by simp
  moreover from br obtain zs where "after = '']'' @ zs" unfolding prefix_def by auto
  ultimately have "s = (''Percent Complete=['' @ ds @ '']'') @ zs" using s by simp
  then have "prefix (''Percent Complete=['' @ ds @ '']'') s" unfolding prefix_def by blast
  with m ne digs show ?thesis by blast
qed

lemma FindStringSubmatch_cases:
  "FindStringSubmatch s = [] \<or>
   (\<exists>ds. FindStringSubmatch s = [''Percent Complete=['' @ ds @ '']'', ds] \<and> ds \<noteq> [] \<and> list_all isDigit ds
      \<and> sublist (''Percent Complete=['' @ ds @ '']'') s)"
proof (induction s)
  case Nil
  then show ?case by simp
next
  case (Cons c cs)
  show ?case
  proof (cases "matchHere (c # cs) = []")
    case True
    then have "FindStringSubmatch (c # cs) = FindStringSubmatch cs" by simp
    with Cons show ?thesis by (auto simp: sublist_Cons_right)
  next
    case False
    then have "FindStringSubmatch (c # cs) = matchHere (c # cs)" by simp
    with False matchHere_cases [of "c # cs"] show ?thesis
      by (auto simp del: FindStringSubmatch.simps)
  qed
qed

lemma digitVal_nonneg: "isDigit c \<Longrightarrow> 0 \<le> digitVal c"
proof -
  assume "isDigit c"
  then have "48 \<le> int (of_char c)" by (simp add: isDigit_def)
  then show ?thesis by (simp add: digitVal_def of_nat_of_char)
qed

lemma foldl_decimal_nonneg:
  "list_all isDigit ds \<Longrightarrow> 0 \<le> n \<Longrightarrow> 0 \<le> foldl (\<lambda>n c. 10 * n + digitVal c) n ds"
  by (induction ds arbitrary: n) (auto simp: digitVal_nonneg)

lemma decimal_nonneg: "list_all isDigit ds \<Longrightarrow> 0 \<le> decimal ds"
  unfolding decimal_def by (rule foldl_decimal_nonneg) simp_all

lemma Atoi_range: "Atoi s = Inr v \<Longrightarrow> 0 \<le> v \<and> v \<le> maxInt \<and> v = decimal s \<and> s \<noteq> [] \<and> list_all isDigit s"
  by (auto simp: Atoi_def decimal_nonneg split: if_splits)

lemma parsePercentComplete_lines_none:
  "\<not> list_ex (\<lambda>l. HasPrefix l ''Percent Complete=['') ls \<Longrightarrow>
   parsePercentComplete_lines ls = Inl (New ''failed to find Percent Complete in output'')"
  by (induction ls) auto

lemma parsePercentComplete_lines_find:
  "find (\<lambda>l. HasPrefix l ''Percent Complete=['') ls = Some line \<Longrightarrow>
   parsePercentComplete_lines ls = parsePercentComplete_lines [line]"
proof (induction ls)
  case Nil
  then show ?case by simp
next
  case (Cons l ls)
  show ?case
  proof (cases "HasPrefix l ''Percent Complete=[''")
    case True
    with Cons.prems have "l = line" by simp
    with True show ?thesis by simp
  next
    case False
    with Cons.prems have "find (\<lambda>l. HasPrefix l ''Percent Complete=['') ls = Some line" by simp
    from Cons.IH [OF this] False show ?thesis by simp
  qed
qed

lemma find_None_lines:
  "find (\<lambda>l. HasPrefix l ''Percent Complete=['') ls = None \<Longrightarrow>
   parsePercentComplete_lines ls = Inl (New ''failed to find Percent Complete in output'')"
  by (induction ls) (auto split: if_splits)

lemma parsePercentComplete_lines_ok:
  assumes "parsePercentComplete_lines ls = Inr v"
  shows "\<exists>line ds. find (\<lambda>l. HasPrefix l ''Percent Complete=['') ls = Some line
           \<and> sublist (''Percent Complete=['' @ ds @ '']'') line
           \<and> ds \<noteq> [] \<and> list_all isDigit ds \<and> v = decimal ds \<and> 0 \<le> v \<and> v \<le> maxInt"
proof (cases "find (\<lambda>l. HasPrefix l ''Percent Complete=['') ls")
  case None
  with assms find_None_lines show ?thesis by simp
next
  case (Some line)
  then have hp: "HasPrefix line ''Percent Complete=[''" by (auto simp: find_Some_iff)
  from Some assms have one: "parsePercentComplete_lines [line] = Inr v"
    using parsePercentComplete_lines_find by simp
  then have len: "length (FindStringSubmatch line) = 2"
    using hp by (auto simp: Let_def split: if_splits)
  with FindStringSubmatch_cases [of line] obtain ds where
    f: "FindStringSubmatch line = [''Percent Complete=['' @ ds @ '']'', ds]"
    and sl: "sublist (''Percent Complete=['' @ ds @ '']'') line" by auto
  from one hp f have "Atoi ds = Inr v"
    by (auto simp: Let_def split: sum.splits)
  from Atoi_range [OF this] sl Some show ?thesis by blast
qed

text \<open>
  C4, as the code has it.  \<^verbatim>\<open>parsePercentComplete\<close> returns a parse error when no
  line begins with \<open>Percent Complete=[\<close>, and when the first such line is
  \<open>Percent Complete=[invalid]\<close>.  When it succeeds, the value is the decimal value of
  a non-empty run of digits \<open>ds\<close>, where \<open>Percent Complete=[ds]\<close> occurs in the first
  line with that prefix; it is between 0 and \<open>2^63 - 1\<close>.  Nothing bounds it by 100.
\<close>

theorem parsePercentComplete_result:
  "(\<not> list_ex (\<lambda>l. HasPrefix l ''Percent Complete=['') (Split message newline) \<longrightarrow>
      parsePercentComplete message = Inl (New ''failed to find Percent Complete in output''))
   \<and> (find (\<lambda>l. HasPrefix l ''Percent Complete=['') (Split message newline)
         = Some ''Percent Complete=[invalid]'' \<longrightarrow>
      parsePercentComplete message =
        Inl (New ''failed to extract Percent Complete using regex: Percent Complete=[invalid]''))
   \<and> (\<forall>v. parsePercentComplete message = Inr v \<longrightarrow>
        0 \<le> v \<and> v \<le> 2 ^ 63 - 1
        \<and> (\<exists>line ds. find (\<lambda>l. HasPrefix l ''Percent Complete=['') (Split message newline) = Some line
              \<and> sublist (''Percent Complete=['' @ ds @ '']'') line
              \<and> ds \<noteq> [] \<and> list_all isDigit ds \<and> v = decimal ds))"
proof (intro conjI impI allI)
  assume "\<not> list_ex (\<lambda>l. HasPrefix l ''Percent Complete=['') (Split message newline)"
  then show "parsePercentComplete message = Inl (New ''failed to find Percent Complete in output'')"
    unfolding parsePercentComplete_def by (rule parsePercentComplete_lines_none)
next
  assume "find (\<lambda>l. HasPrefix l ''Percent Complete=['') (Split message newline)
         = Some ''Percent Complete=[invalid]''"
  then have "parsePercentComplete message = parsePercentComplete_lines [''Percent Complete=[invalid]'']"
    unfolding parsePercentComplete_def by (rule parsePercentComplete_lines_find)
  also have "\<dots> = Inl (New ''failed to extract Percent Complete using regex: Percent Complete=[invalid]'')"
    by (simp add: HasPrefix_def matchHere_def isDigit_def)
  finally show "parsePercentComplete message =
        Inl (New ''failed to extract Percent Complete using regex: Percent Complete=[invalid]'')" .
next
  fix v assume v: "parsePercentComplete message = Inr v"
  from parsePercentComplete_lines_ok [OF v [unfolded parsePercentComplete_def]]
  show "0 \<le> v" "v \<le> 2 ^ 63 - 1" 
    "\<exists>line ds. find (\<lambda>l. HasPrefix l ''Percent Complete=['') (Split message newline) = Some line
              \<and> sublist (''Percent Complete=['' @ ds @ '']'') line
              \<and> ds \<noteq> [] \<and> list_all isDigit ds \<and> v = decimal ds"
    by (auto simp: maxInt_def)
qed

text \<open>The theorem at the three messages of the test \<^verbatim>\<open>TestParsePercentComplete\<close>,
  shortened to their last two lines.\<close>

theorem parsePercentComplete_result_witness:
  "\<not> list_ex (\<lambda>l. HasPrefix l ''Percent Complete=['')
        (Split (''Status=Running'' @ [newline] @ ''Message=[SYS058]'') newline)
   \<and> parsePercentComplete (''Status=Running'' @ [newline] @ ''Message=[SYS058]'')
       = Inl (New ''failed to find Percent Complete in output'')
   \<and> find (\<lambda>l. HasPrefix l ''Percent Complete=['')
        (Split (''Status=Running'' @ [newline] @ ''Percent Complete=[invalid]'') newline)
       = Some ''Percent Complete=[invalid]''
   \<and> parsePercentComplete (''Status=Running'' @ [newline] @ ''Percent Complete=[invalid]'')
       = Inl (New ''failed to extract Percent Complete using regex: Percent Complete=[invalid]'')
   \<and> parsePercentComplete (''Status=Running'' @ [newline] @ ''Percent Complete=[20]'') = Inr 20
   \<and> (0::int) \<le> 20 \<and> (20::int) \<le> 2 ^ 63 - 1"
proof -
  let ?m1 = "''Status=Running'' @ [newline] @ ''Message=[SYS058]''"
  let ?m2 = "''Status=Running'' @ [newline] @ ''Percent Complete=[invalid]''"
  let ?m3 = "''Status=Running'' @ [newline] @ ''Percent Complete=[20]''"
  have h1: "\<not> list_ex (\<lambda>l. HasPrefix l ''Percent Complete=['') (Split ?m1 newline)"
    by (simp add: newline_def HasPrefix_def)
  have h2: "find (\<lambda>l. HasPrefix l ''Percent Complete=['') (Split ?m2 newline)
      = Some ''Percent Complete=[invalid]''"
    by (simp add: newline_def HasPrefix_def)
  have h3: "parsePercentComplete ?m3 = Inr 20"
    by (simp add: parsePercentComplete_def HasPrefix_def matchHere_def isDigit_def Atoi_def
        decimal_def digitVal_def maxInt_def newline_def)
  have c1: "parsePercentComplete ?m1 = Inl (New ''failed to find Percent Complete in output'')"
    using parsePercentComplete_result [of ?m1] h1 by blast
  have c2: "parsePercentComplete ?m2
      = Inl (New ''failed to extract Percent Complete using regex: Percent Complete=[invalid]'')"
    using parsePercentComplete_result [of ?m2] h2 by blast
  have c3: "(0::int) \<le> 20 \<and> (20::int) \<le> 2 ^ 63 - 1"
    using parsePercentComplete_result [of ?m3] h3 by blast
  from h1 h2 h3 c1 c2 c3 show ?thesis by blast
qed

text \<open>
  C4 as it is stated fails: the call succeeds on a progress line that reads 101, with
  a value outside 0..100.
\<close>

theorem parsePercentComplete_result_counterexample:
  "parsePercentComplete ''Percent Complete=[101]'' = Inr 101 \<and> \<not> (101::int) \<le> 100"
  by (simp add: parsePercentComplete_def HasPrefix_def matchHere_def isDigit_def Atoi_def decimal_def
      digitVal_def maxInt_def newline_def)


section \<open>Properties of the wait loop of ChangeBiosCfg\<close>

lemma pollLoop_fail_step:
  "tickFails reply \<Longrightarrow>
   (errorCount + 1 \<ge> maxErrors \<longrightarrow> exceeded (fst (pollLoop s jobID errorCount (TickFired reply # evs) tr)))
   \<and> (errorCount + 1 < maxErrors \<longrightarrow>
        pollLoop s jobID errorCount (TickFired reply # evs) tr =
        pollLoop s jobID (errorCount + 1) evs (tr @ [jobqueueArgs s jobID]))"
  by (auto simp: tickFails_def GetJobQueue_def run_def exceeded_def jobqueueArgs_def
      split: prod.splits option.splits sum.splits)

lemma pollLoop_ok_step:
  "\<not> tickFails reply \<Longrightarrow>
   pollLoop s jobID errorCount (TickFired reply # evs) tr =
     (if tickPercent reply = 100 then (Return None, tr @ [jobqueueArgs s jobID])
      else pollLoop s jobID 0 evs (tr @ [jobqueueArgs s jobID]))"
  by (auto simp: tickFails_def tickPercent_def GetJobQueue_def run_def jobqueueArgs_def
      split: prod.splits option.splits sum.splits)

lemma pollLoop_append:
  "fst (pollLoop s jobID c pre tr) = Waiting c' \<Longrightarrow>
   pollLoop s jobID c (pre @ rest) tr = pollLoop s jobID c' rest (snd (pollLoop s jobID c pre tr))"
proof (induction pre arbitrary: c tr)
  case Nil
  then show ?case by simp
next
  case (Cons e pre)
  show ?case
  proof (cases e)
    case (CtxDone err)
    with Cons.prems show ?thesis by simp
  next
    case TimeoutFired
    with Cons.prems show ?thesis by simp
  next
    case (TickFired reply)
    define tr' where "tr' = tr @ [jobqueueArgs s jobID]"
    show ?thesis
    proof (cases "tickFails reply")
      case True
      note f = pollLoop_fail_step [OF True, of c s jobID _ tr]
      have lt: "c + 1 < maxErrors"
      proof (rule ccontr)
        assume "\<not> c + 1 < maxErrors"
        with f have "exceeded (fst (pollLoop s jobID c (TickFired reply # pre) tr))" by simp
        with Cons.prems TickFired show False by (simp add: exceeded_def)
      qed
      with f have step: "\<And>evs. pollLoop s jobID c (TickFired reply # evs) tr = pollLoop s jobID (c + 1) evs tr'"
        by (simp add: tr'_def)
      with Cons.prems TickFired have "fst (pollLoop s jobID (c + 1) pre tr') = Waiting c'" by simp
      from Cons.IH [OF this] show ?thesis using step TickFired by simp
    next
      case False
      note g = pollLoop_ok_step [OF False, of s jobID c _ tr]
      have ne: "tickPercent reply \<noteq> 100"
      proof
        assume "tickPercent reply = 100"
        with g have "fst (pollLoop s jobID c (TickFired reply # pre) tr) = Return None" by simp
        with Cons.prems TickFired show False by simp
      qed
      with g have step: "\<And>evs. pollLoop s jobID c (TickFired reply # evs) tr = pollLoop s jobID 0 evs tr'"
        by (simp add: tr'_def)
      with Cons.prems TickFired have "fst (pollLoop s jobID 0 pre tr') = Waiting c'" by simp
      from Cons.IH [OF this] show ?thesis using step TickFired by simp
    qed
  qed
qed

lemma pollLoop_counter_bound:
  "fst (pollLoop s jobID c pre tr) = Waiting c' \<Longrightarrow> c < maxErrors \<Longrightarrow> c' < maxErrors"
proof (induction pre arbitrary: c tr)
  case Nil
  then show ?case by simp
next
  case (Cons e pre)
  show ?case
  proof (cases e)
    case (CtxDone err)
    with Cons.prems show ?thesis by simp
  next
    case TimeoutFired
    with Cons.prems show ?thesis by simp
  next
    case (TickFired reply)
    show ?thesis
    proof (cases "tickFails reply")
      case True
      note f = pollLoop_fail_step [OF True, of c s jobID pre tr]
      have lt: "c + 1 < maxErrors"
      proof (rule ccontr)
        assume "\<not> c + 1 < maxErrors"
        with f have "exceeded (fst (pollLoop s jobID c (TickFired reply # pre) tr))" by simp
        with Cons.prems TickFired show False by (simp add: exceeded_def)
      qed
      with f Cons.prems TickFired
      have "fst (pollLoop s jobID (c + 1) pre (tr @ [jobqueueArgs s jobID])) = Waiting c'" by simp
      from Cons.IH [OF this lt] show ?thesis .
    next
      case False
      note g = pollLoop_ok_step [OF False, of s jobID c pre tr]
      have ne: "tickPercent reply \<noteq> 100"
      proof
        assume "tickPercent reply = 100"
        with g have "fst (pollLoop s jobID c (TickFired reply # pre) tr) = Return None" by simp
        with Cons.prems TickFired show False by simp
      qed
      with g Cons.prems TickFired
      have "fst (pollLoop s jobID 0 pre (tr @ [jobqueueArgs s jobID])) = Waiting c'" by simp
      from Cons.IH [OF this] show ?thesis by (simp add: maxErrors_def)
    qed
  qed
qed

lemma fail_continue:
  "tickFails reply \<Longrightarrow> errorCount + 1 < maxErrors \<Longrightarrow>
   pollLoop s jobID errorCount (TickFired reply # evs) tr =
   pollLoop s jobID (errorCount + 1) evs (tr @ [jobqueueArgs s jobID])"
  using pollLoop_fail_step by blast

lemma fail_exceeded:
  "tickFails reply \<Longrightarrow> maxErrors \<le> errorCount + 1 \<Longrightarrow>
   exceeded (fst (pollLoop s jobID errorCount (TickFired reply # evs) tr))"
  using pollLoop_fail_step by blast

lemma three_failures_exceed:
  assumes "tickFails r1" "tickFails r2" "tickFails r3" "c < maxErrors"
  shows "exceeded (fst (pollLoop s jobID c (TickFired r1 # TickFired r2 # TickFired r3 # rest) tr))"
proof (cases "c + 1 \<ge> maxErrors")
  case True
  with assms(1) show ?thesis by (rule fail_exceeded)
next
  case n1: False
  then have s1: "pollLoop s jobID c (TickFired r1 # TickFired r2 # TickFired r3 # rest) tr =
      pollLoop s jobID (c + 1) (TickFired r2 # TickFired r3 # rest) (tr @ [jobqueueArgs s jobID])"
    using assms(1) by (intro fail_continue) simp_all
  show ?thesis
  proof (cases "c + 2 \<ge> maxErrors")
    case True
    then have "maxErrors \<le> (c + 1) + 1" by simp
    with assms(2) show ?thesis unfolding s1 by (rule fail_exceeded)
  next
    case False
    then have s2: "pollLoop s jobID (c + 1) (TickFired r2 # TickFired r3 # rest) (tr @ [jobqueueArgs s jobID]) =
      pollLoop s jobID (c + 1 + 1) (TickFired r3 # rest) (tr @ [jobqueueArgs s jobID] @ [jobqueueArgs s jobID])"
      using assms(2) by (subst fail_continue) simp_all
    have "maxErrors \<le> (c + 1 + 1) + 1" by (simp add: maxErrors_def)
    with assms(3) show ?thesis unfolding s1 s2 by (rule fail_exceeded)
  qed
qed

lemma two_failures_wait:
  assumes "tickFails r1" "tickFails r2"
  shows "pollLoop s jobID 0 (TickFired r1 # TickFired r2 # rest) tr =
     pollLoop s jobID 2 rest (tr @ [jobqueueArgs s jobID, jobqueueArgs s jobID])"
proof -
  have "pollLoop s jobID 0 (TickFired r1 # TickFired r2 # rest) tr =
      pollLoop s jobID (0 + 1) (TickFired r2 # rest) (tr @ [jobqueueArgs s jobID])"
    using assms(1) by (intro fail_continue) (simp_all add: maxErrors_def)
  also have "\<dots> = pollLoop s jobID (0 + 1 + 1) rest ((tr @ [jobqueueArgs s jobID]) @ [jobqueueArgs s jobID])"
    using assms(2) by (intro fail_continue) (simp_all add: maxErrors_def)
  finally show ?thesis
    by (simp only: append_assoc append_Cons append_Nil one_add_one add_0)
qed

text \<open>
  C1.  Whatever events came before (\<open>pre\<close>, after which the loop is still waiting),
  three failing ticks in a row make the loop return an error that reads
  \<open>exceeded maximum consecutive errors ...\<close>; two failing ticks from a counter of zero
  do not end it.  A tick that queries and parses well, and reads less than 100, sets
  the counter to zero whatever it was: the loop goes on as from a fresh counter.  So
  two failures and then a success leave the loop waiting with the counter at zero
  (or, when the success reads 100, make it return nil); in neither case does it
  return the error.
\<close>

theorem pollLoop_consecutive_errors:
  "(fst (pollLoop s jobID 0 pre tr) = Waiting c \<and> tickFails r1 \<and> tickFails r2 \<and> tickFails r3 \<longrightarrow>
      exceeded (fst (pollLoop s jobID 0 (pre @ TickFired r1 # TickFired r2 # TickFired r3 # rest) tr)))
   \<and> (tickFails r1 \<and> tickFails r2 \<longrightarrow>
        fst (pollLoop s jobID 0 [TickFired r1, TickFired r2] tr) = Waiting 2)
   \<and> (\<not> tickFails r \<and> tickPercent r \<noteq> 100 \<longrightarrow>
        pollLoop s jobID n (TickFired r # rest) tr =
        pollLoop s jobID 0 rest (tr @ [jobqueueArgs s jobID]))
   \<and> (tickFails r1 \<and> tickFails r2 \<and> \<not> tickFails r \<longrightarrow>
        fst (pollLoop s jobID 0 [TickFired r1, TickFired r2, TickFired r] tr) =
          (if tickPercent r = 100 then Return None else Waiting 0)
        \<and> \<not> exceeded (fst (pollLoop s jobID 0 [TickFired r1, TickFired r2, TickFired r] tr)))"
proof (intro conjI impI)
  assume a: "fst (pollLoop s jobID 0 pre tr) = Waiting c \<and> tickFails r1 \<and> tickFails r2 \<and> tickFails r3"
  then have c: "c < maxErrors"
    using pollLoop_counter_bound [of s jobID 0 pre tr c] by (simp add: maxErrors_def)
  from a have "pollLoop s jobID 0 (pre @ TickFired r1 # TickFired r2 # TickFired r3 # rest) tr =
      pollLoop s jobID c (TickFired r1 # TickFired r2 # TickFired r3 # rest) (snd (pollLoop s jobID 0 pre tr))"
    using pollLoop_append by blast
  moreover have "exceeded (fst (pollLoop s jobID c (TickFired r1 # TickFired r2 # TickFired r3 # rest)
      (snd (pollLoop s jobID 0 pre tr))))"
    using a c by (intro three_failures_exceed) simp_all
  ultimately
  show "exceeded (fst (pollLoop s jobID 0 (pre @ TickFired r1 # TickFired r2 # TickFired r3 # rest) tr))"
    by (simp del: pollLoop.simps)
next
  assume a: "tickFails r1 \<and> tickFails r2"
  then show "fst (pollLoop s jobID 0 [TickFired r1, TickFired r2] tr) = Waiting 2"
    by (simp add: two_failures_wait del: pollLoop.simps(4))
next
  assume "\<not> tickFails r \<and> tickPercent r \<noteq> 100"
  then show "pollLoop s jobID n (TickFired r # rest) tr =
        pollLoop s jobID 0 rest (tr @ [jobqueueArgs s jobID])"
    using pollLoop_ok_step [of r s jobID n rest tr] by (simp del: pollLoop.simps)
next
  assume a: "tickFails r1 \<and> tickFails r2 \<and> \<not> tickFails r"
  then have "pollLoop s jobID 0 [TickFired r1, TickFired r2, TickFired r] tr =
     pollLoop s jobID 2 [TickFired r] (tr @ [jobqueueArgs s jobID, jobqueueArgs s jobID])"
    by (simp add: two_failures_wait del: pollLoop.simps)
  also have "fst \<dots> = (if tickPercent r = 100 then Return None else Waiting 0)"
    using a by (simp add: pollLoop_ok_step del: pollLoop.simps(4))
  finally show r: "fst (pollLoop s jobID 0 [TickFired r1, TickFired r2, TickFired r] tr) =
          (if tickPercent r = 100 then Return None else Waiting 0)" .
  show "\<not> exceeded (fst (pollLoop s jobID 0 [TickFired r1, TickFired r2, TickFired r] tr))"
    unfolding r by (simp add: exceeded_def)
qed

text \<open>The theorem at replies of the executor: an error, and outputs that read 20.\<close>

theorem pollLoop_consecutive_errors_witness:
  "fst (pollLoop example_racadm ''JID_000123456789'' 0
          [TickFired (reply_stdout ''Percent Complete=[20]'')] []) = Waiting 0
   \<and> tickFails reply_error
   \<and> tickFails (reply_stdout ''Percent Complete=[invalid]'')
   \<and> \<not> tickFails (reply_stdout ''Percent Complete=[20]'')
   \<and> tickPercent (reply_stdout ''Percent Complete=[20]'') \<noteq> 100
   \<and> exceeded (fst (pollLoop example_racadm ''JID_000123456789'' 0
        ([TickFired (reply_stdout ''Percent Complete=[20]'')]
          @ TickFired reply_error # TickFired (reply_stdout ''Percent Complete=[invalid]'')
          # TickFired reply_error # [TickFired reply_error]) []))
   \<and> fst (pollLoop example_racadm ''JID_000123456789'' 0
        [TickFired reply_error, TickFired (reply_stdout ''Percent Complete=[invalid]'')] []) = Waiting 2
   \<and> pollLoop example_racadm ''JID_000123456789'' 2
        (TickFired (reply_stdout ''Percent Complete=[20]'') # [TickFired reply_error]) []
       = pollLoop example_racadm ''JID_000123456789'' 0 [TickFired reply_error]
           ([] @ [jobqueueArgs example_racadm ''JID_000123456789''])
   \<and> fst (pollLoop example_racadm ''JID_000123456789'' 0
        [TickFired reply_error, TickFired (reply_stdout ''Percent Complete=[invalid]''),
         TickFired (reply_stdout ''Percent Complete=[20]'')] []) = Waiting 0"
proof -
  let ?ok = "reply_stdout ''Percent Complete=[20]''"
  let ?bad = "reply_stdout ''Percent Complete=[invalid]''"
  let ?s = example_racadm
  let ?j = "''JID_000123456789''"
  have p20: "parsePercentComplete ''Percent Complete=[20]'' = Inr 20"
    by (simp add: parsePercentComplete_def HasPrefix_def matchHere_def isDigit_def Atoi_def
        decimal_def digitVal_def maxInt_def newline_def)
  have pinv: "isl (parsePercentComplete ''Percent Complete=[invalid]'')"
    by (simp add: parsePercentComplete_def HasPrefix_def matchHere_def isDigit_def newline_def)
  have f1: "tickFails reply_error"
    by (simp add: tickFails_def reply_error_def run_output_def)
  have f2: "tickFails ?bad"
    using pinv by (simp add: tickFails_def reply_stdout_def run_output_def)
  have g: "\<not> tickFails ?ok"
    using p20 by (simp add: tickFails_def reply_stdout_def run_output_def)
  have g100: "tickPercent ?ok \<noteq> 100"
    using p20 by (simp add: tickPercent_def reply_stdout_def run_output_def)
  have w0: "fst (pollLoop ?s ?j 0 [TickFired ?ok] []) = Waiting 0"
    using g g100 by (simp add: pollLoop_ok_step del: pollLoop.simps(4))
  note t = pollLoop_consecutive_errors [where s = ?s and jobID = ?j and pre = "[TickFired ?ok]"
      and tr = "[]" and c = 0 and ?r1.0 = reply_error and ?r2.0 = ?bad and ?r3.0 = reply_error
      and rest = "[TickFired reply_error]" and r = ?ok and n = 2]
  from t w0 f1 f2 have c1: "exceeded (fst (pollLoop ?s ?j 0
        ([TickFired ?ok] @ TickFired reply_error # TickFired ?bad
          # TickFired reply_error # [TickFired reply_error]) []))"
    by blast
  from t f1 f2 have c2: "fst (pollLoop ?s ?j 0 [TickFired reply_error, TickFired ?bad] []) = Waiting 2"
    by blast
  from t g g100 have c3: "pollLoop ?s ?j 2 (TickFired ?ok # [TickFired reply_error]) []
       = pollLoop ?s ?j 0 [TickFired reply_error] ([] @ [jobqueueArgs ?s ?j])"
    by blast
  from t f1 f2 g g100 have c4: "fst (pollLoop ?s ?j 0
        [TickFired reply_error, TickFired ?bad, TickFired ?ok] []) = Waiting 0"
    by auto
  from w0 f1 f2 g g100 c1 c2 c3 c4 show ?thesis by blast
qed


section \<open>Properties of the deadline check of ChangeBiosCfg\<close>

lemma pollLoop_trace_extends:
  "\<exists>tr'. snd (pollLoop s jobID c evs tr) = tr @ tr'"
proof (induction evs arbitrary: c tr)
  case Nil
  then show ?case by simp
next
  case (Cons e evs)
  show ?case
  proof (cases e)
    case (CtxDone err)
    then show ?thesis by simp
  next
    case TimeoutFired
    then show ?thesis by simp
  next
    case (TickFired reply)
    obtain t1 where t1: "snd (pollLoop s jobID (c + 1) evs (tr @ [jobqueueArgs s jobID]))
        = (tr @ [jobqueueArgs s jobID]) @ t1"
      using Cons.IH by blast
    obtain t2 where t2: "snd (pollLoop s jobID 0 evs (tr @ [jobqueueArgs s jobID]))
        = (tr @ [jobqueueArgs s jobID]) @ t2"
      using Cons.IH by blast
    from t1 t2 TickFired show ?thesis
      by (auto simp: GetJobQueue_def run_def jobqueueArgs_def
          split: prod.splits option.splits sum.splits)
  qed
qed

text \<open>
  C2.  The remaining budget is \<^verbatim>\<open>time.Until(d)\<close> for the deadline \<open>d\<close> of the context
  (the zero \<^verbatim>\<open>Time\<close> when it has none), read before anything is run.  When it is
  smaller than \<open>timeout\<close>, which is 14 minutes 30 seconds, the call returns an error
  and the trace of executed commands is empty: neither the \<^verbatim>\<open>set\<close> command nor any
  other was run.  When it is not smaller, the first command run is the \<^verbatim>\<open>set\<close>.
\<close>

theorem ChangeBiosCfg_deadline_check:
  "timeout = 870 * 1000000000
   \<and> (Until (fst (Deadline ctx)) (now1 w) < timeout \<longrightarrow>
        (\<exists>msg. ChangeBiosCfg s ctx w cfgFile = (Return (Some (New msg)), [])))
   \<and> (\<not> Until (fst (Deadline ctx)) (now1 w) < timeout \<longrightarrow>
        (\<exists>tr. snd (ChangeBiosCfg s ctx w cfgFile) = setArgs s cfgFile # tr))"
proof (intro conjI impI)
  show "timeout = 870 * 1000000000"
    by (simp add: timeout_def minute_def second_def)
next
  assume "Until (fst (Deadline ctx)) (now1 w) < timeout"
  then show "\<exists>msg. ChangeBiosCfg s ctx w cfgFile = (Return (Some (New msg)), [])"
    by (simp add: ChangeBiosCfg_def Let_def)
next
  assume ok: "\<not> Until (fst (Deadline ctx)) (now1 w) < timeout"
  have r: "run s [] (setReply w) ''set'' [''-t'', ''xml'', ''-f'', cfgFile]
      = (run_output (setReply w), [setArgs s cfgFile])"
    by (simp add: run_def setArgs_def)
  have "\<exists>tr. snd (case parseJobId out of
                   Panics \<Rightarrow> (Panic, [setArgs s cfgFile])
                 | Returns (Inl err) \<Rightarrow> (Return (Some (Wrap ''failed to parse JobID'' err)), [setArgs s cfgFile])
                 | Returns (Inr jobID) \<Rightarrow> pollLoop s jobID 0 (events w) [setArgs s cfgFile])
          = setArgs s cfgFile # tr" for out
    using pollLoop_trace_extends [of s _ 0 "events w" "[setArgs s cfgFile]"]
    by (auto split: outcome.splits sum.splits)
  with ok show "\<exists>tr. snd (ChangeBiosCfg s ctx w cfgFile) = setArgs s cfgFile # tr"
    by (auto simp: ChangeBiosCfg_def Let_def r split: prod.splits option.splits)
qed

text \<open>
  The theorem at a context with no deadline (the budget is then the time from now back
  to the zero \<^verbatim>\<open>Time\<close>, a negative duration), and at a context whose deadline is 15
  minutes away.
\<close>

theorem ChangeBiosCfg_deadline_check_witness:
  "Until (fst (Deadline \<lparr>deadline = None\<rparr>)) 63900000000000000000 < timeout
   \<and> (\<exists>msg. ChangeBiosCfg example_racadm \<lparr>deadline = None\<rparr>
         \<lparr>now1 = 63900000000000000000, now2 = 63900000000000000000, durationString = (\<lambda>d. ''?''),
          setReply = reply_stdout example_message, events = []\<rparr> ''bios.xml''
        = (Return (Some (New msg)), []))
   \<and> \<not> Until (fst (Deadline \<lparr>deadline = Some (63900000000000000000 + 15 * minute)\<rparr>))
          63900000000000000000 < timeout
   \<and> (\<exists>tr. snd (ChangeBiosCfg example_racadm \<lparr>deadline = Some (63900000000000000000 + 15 * minute)\<rparr>
         \<lparr>now1 = 63900000000000000000, now2 = 63900000000000000000, durationString = (\<lambda>d. ''?''),
          setReply = reply_stdout example_message, events = []\<rparr> ''bios.xml'')
        = setArgs example_racadm ''bios.xml'' # tr)"
proof -
  let ?w = "\<lparr>now1 = 63900000000000000000, now2 = 63900000000000000000, durationString = (\<lambda>d. ''?''),
          setReply = reply_stdout example_message, events = []\<rparr>"
  let ?c1 = "\<lparr>deadline = None\<rparr>"
  let ?c2 = "\<lparr>deadline = Some (63900000000000000000 + 15 * minute)\<rparr>"
  have h1: "Until (fst (Deadline ?c1)) (now1 ?w) < timeout"
    by (simp add: Until_def Sub_def Deadline_def timeout_def minute_def second_def
        minDuration_def maxDuration_def)
  have h2: "\<not> Until (fst (Deadline ?c2)) (now1 ?w) < timeout"
    by (simp add: Until_def Sub_def Deadline_def timeout_def minute_def second_def
        minDuration_def maxDuration_def)
  have c1: "\<exists>msg. ChangeBiosCfg example_racadm ?c1 ?w ''bios.xml'' = (Return (Some (New msg)), [])"
    using ChangeBiosCfg_deadline_check [of ?c1 ?w example_racadm "''bios.xml''"] h1 by blast
  have c2: "\<exists>tr. snd (ChangeBiosCfg example_racadm ?c2 ?w ''bios.xml'')
      = setArgs example_racadm ''bios.xml'' # tr"
    using ChangeBiosCfg_deadline_check [of ?c2 ?w example_racadm "''bios.xml''"] h2 by blast
  from h1 h2 c1 c2 show ?thesis by simp
qed


section \<open>Properties of UploadHTTPSCert\<close>

text \<open>
  C9.  Once the form is written, phase 1 is the POST of the form to the upload
  endpoint.  When its reply carries an error of the transport or a status other than
  201, the call returns false and an error, and that POST is the only request made:
  phase 2 is not attempted.  The error is the one of the phase-1 POST: the transport's
  own, or else the error whose text names the upload endpoint of phase 1.  When phase
  1 returns 201 and a body the JSON coder accepts, and the POST of the resource
  locator returns 201, the call returns true and no error, after these two requests.
\<close>

theorem UploadHTTPSCert_two_phases:
  "CreateFormFile lib certFileName = None \<and> Copy lib cert = None \<and>
   req1 = \<lparr>reqMethod = POST, reqEndpoint = certUploadEndpoint i,
           reqPayload = formBytes lib certFileName cert,
           reqContentType = FormDataContentType lib\<rparr> \<and>
   req2 = \<lparr>reqMethod = POST, reqEndpoint = certEndpoint, reqPayload = uri, reqContentType = []\<rparr>
   \<longrightarrow>
     (replyErr (dev reqs req1) \<noteq> None \<or> replyStatus (dev reqs req1) \<noteq> 201 \<longrightarrow>
        UploadHTTPSCert i lib dev reqs cert certFileName key keyFileName =
          ((False, (case replyErr (dev reqs req1) of
                      Some e \<Rightarrow> Some e
                    | None \<Rightarrow> Some (expected201 (certUploadEndpoint i)))),
           reqs @ [req1])
        \<and> Error (expected201 (certUploadEndpoint i)) =
            ''Cert form upload POST request to '' @ certUploadEndpoint i @ '' failed, expected 201.'')
     \<and> (replyErr (dev reqs req1) = None \<and> replyStatus (dev reqs req1) = 201
        \<and> Unmarshal lib (replyBody (dev reqs req1)) = (storeFile, None)
        \<and> Marshal lib storeFile = (uri, None)
        \<and> replyErr (dev (reqs @ [req1]) req2) = None
        \<and> replyStatus (dev (reqs @ [req1]) req2) = 201 \<longrightarrow>
        UploadHTTPSCert i lib dev reqs cert certFileName key keyFileName =
          ((True, None), reqs @ [req1, req2]))"
  by (auto simp: UploadHTTPSCert_def post_def send_def expected201_def Let_def
      split: option.splits prod.splits)

text \<open>The theorem at a device that refuses the upload with 500, and at one that answers
  201 to both requests.\<close>

theorem UploadHTTPSCert_two_phases_witness:
  "CreateFormFile example_cert_lib ''cert.pem'' = None \<and> Copy example_cert_lib ''CERT'' = None
   \<and> replyStatus (device_status 500 []
        \<lparr>reqMethod = POST, reqEndpoint = certUploadEndpoint example_idrac,
         reqPayload = ''CERT'', reqContentType = ''multipart/form-data''\<rparr>) \<noteq> 201
   \<and> UploadHTTPSCert example_idrac example_cert_lib (device_status 500) [] ''CERT'' ''cert.pem'' [] []
       = ((False, Some (expected201 (certUploadEndpoint example_idrac))),
          [\<lparr>reqMethod = POST, reqEndpoint = certUploadEndpoint example_idrac,
            reqPayload = ''CERT'', reqContentType = ''multipart/form-data''\<rparr>])
   \<and> UploadHTTPSCert example_idrac example_cert_lib (device_status 201) [] ''CERT'' ''cert.pem'' [] []
       = ((True, None),
          [\<lparr>reqMethod = POST, reqEndpoint = certUploadEndpoint example_idrac,
            reqPayload = ''CERT'', reqContentType = ''multipart/form-data''\<rparr>,
           \<lparr>reqMethod = POST, reqEndpoint = certEndpoint, reqPayload = ''{}'', reqContentType = []\<rparr>])"
proof -
  let ?req1 = "\<lparr>reqMethod = POST, reqEndpoint = certUploadEndpoint example_idrac,
         reqPayload = ''CERT'', reqContentType = ''multipart/form-data''\<rparr>"
  let ?req2 = "\<lparr>reqMethod = POST, reqEndpoint = certEndpoint, reqPayload = ''{}'', reqContentType = []\<rparr>"
  have lib: "CreateFormFile example_cert_lib ''cert.pem'' = None" "Copy example_cert_lib ''CERT'' = None"
    "formBytes example_cert_lib ''cert.pem'' ''CERT'' = ''CERT''"
    "FormDataContentType example_cert_lib = ''multipart/form-data''"
    "Unmarshal example_cert_lib ''{}'' = (''{}'', None)"
    "Marshal example_cert_lib ''{}'' = (''{}'', None)"
    by (simp_all add: example_cert_lib_def)
  have d500: "replyStatus (device_status 500 [] ?req1) \<noteq> 201"
    by (simp add: device_status_def)
  have d201: "replyErr (device_status 201 [] ?req1) = None" "replyStatus (device_status 201 [] ?req1) = 201"
    "replyBody (device_status 201 [] ?req1) = ''{}''"
    "replyErr (device_status 201 ([] @ [?req1]) ?req2) = None"
    "replyStatus (device_status 201 ([] @ [?req1]) ?req2) = 201"
    "replyErr (device_status 500 [] ?req1) = None"
    by (simp_all add: device_status_def)
  have c1: "UploadHTTPSCert example_idrac example_cert_lib (device_status 500) [] ''CERT'' ''cert.pem'' [] []
       = ((False, Some (expected201 (certUploadEndpoint example_idrac))), [?req1])"
    using UploadHTTPSCert_two_phases [where lib = example_cert_lib and certFileName = "''cert.pem''"
        and cert = "''CERT''" and i = example_idrac and dev = "device_status 500" and reqs = "[]"
        and ?req1.0 = ?req1 and ?req2.0 = ?req2 and uri = "''{}''" and key = "[]" and keyFileName = "[]"]
      lib d500 d201 by simp
  have c2: "UploadHTTPSCert example_idrac example_cert_lib (device_status 201) [] ''CERT'' ''cert.pem'' [] []
       = ((True, None), [?req1, ?req2])"
    using UploadHTTPSCert_two_phases [where lib = example_cert_lib and certFileName = "''cert.pem''"
        and cert = "''CERT''" and i = example_idrac and dev = "device_status 201" and reqs = "[]"
        and ?req1.0 = ?req1 and ?req2.0 = ?req2 and uri = "''{}''" and storeFile = "''{}''"
        and key = "[]" and keyFileName = "[]"]
      lib d201 by simp
  from lib(1,2) d500 c1 c2 show ?thesis by simp
qed


section \<open>Status codes and validation in Network, Ntp and Syslog\<close>

text \<open>
  C6 at a device that answers 500 with no error of the transport.  \<^verbatim>\<open>Network\<close>
  makes its POST and returns a nil error; \<^verbatim>\<open>Ntp\<close> makes its two GETs and returns a
  nil error.  \<^verbatim>\<open>Ldap\<close>, on the same device, returns the error of the non-200 status.
\<close>

theorem Network_Ntp_non200_nil_error:
  "fst (Network (device_status 500) [] example_network) = (False, None)
   \<and> length (snd (Network (device_status 500) [] example_network)) = 1
   \<and> fst (Ntp (device_status 500) [] example_ntp) = None
   \<and> length (snd (Ntp (device_status 500) [] example_ntp)) = 2
   \<and> fst (Ldap (device_status 500) [] example_ldap)
       = Some (non200 ''data?set=xGLServer:ldap.example.com'')"
  by (simp add: Network_def Ntp_def Ldap_def applyTimezoneParam_def applyNtpServerParam_def
      post_def get_def send_def device_status_def example_network_def example_ntp_def
      example_ldap_def Let_def)

text \<open>
  The reply \<^verbatim>\<open>Network\<close> gets there carries no error of the transport and a status
  other than 200, and the error \<^verbatim>\<open>Network\<close> and \<^verbatim>\<open>Ntp\<close> return is nil.
\<close>

theorem Network_Ntp_non200_nil_error_witness:
  "replyErr (device_status 500 []
      \<lparr>reqMethod = POST, reqEndpoint = ''data?set'', reqPayload = Network_payload example_network,
       reqContentType = []\<rparr>) = None
   \<and> replyStatus (device_status 500 []
      \<lparr>reqMethod = POST, reqEndpoint = ''data?set'', reqPayload = Network_payload example_network,
       reqContentType = []\<rparr>) \<noteq> 200
   \<and> snd (Network (device_status 500) [] example_network)
       = [\<lparr>reqMethod = POST, reqEndpoint = ''data?set'', reqPayload = Network_payload example_network,
           reqContentType = []\<rparr>]
   \<and> snd (fst (Network (device_status 500) [] example_network)) = None
   \<and> fst (Ntp (device_status 500) [] example_ntp) = None"
proof -
  have r: "replyErr (device_status 500 []
      \<lparr>reqMethod = POST, reqEndpoint = ''data?set'', reqPayload = Network_payload example_network,
       reqContentType = []\<rparr>) = None"
    "replyStatus (device_status 500 []
      \<lparr>reqMethod = POST, reqEndpoint = ''data?set'', reqPayload = Network_payload example_network,
       reqContentType = []\<rparr>) \<noteq> 200"
    by (simp_all add: device_status_def)
  have q: "snd (Network (device_status 500) [] example_network)
       = [\<lparr>reqMethod = POST, reqEndpoint = ''data?set'', reqPayload = Network_payload example_network,
           reqContentType = []\<rparr>]"
    by (simp add: Network_def post_def send_def Let_def)
  from Network_Ntp_non200_nil_error
  have "snd (fst (Network (device_status 500) [] example_network)) = None"
    and "fst (Ntp (device_status 500) [] example_ntp) = None"
    by simp_all
  with r q show ?thesis by blast
qed

text \<open>
  C7 at configurations with a required field missing.  \<^verbatim>\<open>Syslog\<close> without a server,
  and \<^verbatim>\<open>Ntp\<close> without a first server or without a time zone, make no request and
  return a nil error.  \<^verbatim>\<open>LdapGroups\<close> without a port makes no request and returns
  the validation error.
\<close>

theorem Syslog_Ntp_missing_field_nil_error:
  "Syslog jsonMarshal alertFilter dev []
      \<lparr>cfg_Syslog.Server = [], Port = 514, Enable = True\<rparr> = (None, [])
   \<and> Ntp dev [] (example_ntp\<lparr>cfg_Ntp.Server1 := []\<rparr>) = (None, [])
   \<and> Ntp dev [] (example_ntp\<lparr>Timezone := []\<rparr>) = (None, [])
   \<and> LdapGroups IsRoleValid dev [] cfgGroups (example_ldap\<lparr>cfg_Ldap.Port := 0\<rparr>)
       = (Some (New ''LDAP resource parameter \"Port\" is required!''), [])"
  by (simp add: Syslog_def Ntp_def LdapGroups_def example_ntp_def example_ldap_def Let_def)



section \<open>Properties of escapeLdapString\<close>




























section \<open>Properties of User\<close>










end
